theory Spec2Isabelle
  imports Main "HOL-Library.Word" "HOL-Library.AList"
begin

section \<open>Car rental backend: values, identifiers and instants\<close>

text \<open>
  The service of \<^verbatim>\<open>src/main.py\<close> keeps three MongoDB collections (\<^verbatim>\<open>car\<close>,
  \<^verbatim>\<open>rental\<close>, \<^verbatim>\<open>invoice\<close>) of Python dictionaries and answers HTTP requests by
  reading and writing them. The embedding below follows the handlers line by line:
  dictionaries are association lists, every exception is a value of \<open>error\<close>, the
  store is passed in and handed back, and the readings of the clock and the
  identifiers the driver generates are arguments of the handlers.
\<close>

subsection \<open>Errors\<close>

text \<open>
  \<^verbatim>\<open>HTTPException(status_code, detail)\<close> is what the handlers raise on purpose. The
  other constructors are the Python and driver exceptions a handler can run into;
  FastAPI answers them with status 500.
\<close>

datatype error =
    HTTPException nat string
  | KeyError string
  | TypeError
  | AttributeError
  | ValueError
  | ValidationError
  | OverflowError
  | InvalidId
  | DuplicateKeyError

subsection \<open>ObjectId\<close>

text \<open>
  A stored \<^verbatim>\<open>ObjectId\<close> is a BSON value of exactly 12 bytes (\<open>objid\<close>); the driver
  generates such values. The Python object \<^verbatim>\<open>bson.ObjectId\<close> holds a byte string:
  \<^verbatim>\<open>ObjectId(s)\<close> on a string takes \<^verbatim>\<open>bytes.fromhex(s)\<close> when \<^verbatim>\<open>len(s) == 24\<close> and raises
  \<^verbatim>\<open>InvalidId\<close> when the length differs or \<^verbatim>\<open>fromhex\<close> fails, and
  \<^verbatim>\<open>ObjectId.is_valid(s)\<close> is true exactly when \<^verbatim>\<open>ObjectId(s)\<close> does not raise.
  \<^verbatim>\<open>bytes.fromhex\<close> reads pairs of hexadecimal digits (either case) and skips ASCII
  whitespace before a pair, so a string of 24 characters with whitespace in it is
  accepted and gives fewer than 12 bytes. \<^verbatim>\<open>str\<close> of an ObjectId is the lower-case
  hexadecimal rendering of its bytes.
\<close>

type_synonym objid = "96 word"

definition hex_digit :: "char \<Rightarrow> nat option" where
  "hex_digit c =
     (let n = (of_char c :: nat) in
      if 48 \<le> n \<and> n \<le> 57 then Some (n - 48)
      else if 97 \<le> n \<and> n \<le> 102 then Some (n - 87)
      else if 65 \<le> n \<and> n \<le> 70 then Some (n - 55)
      else None)"

definition hex_char :: "nat \<Rightarrow> char" where
  "hex_char n = (if n < 10 then char_of (48 + n) else char_of (87 + n))"

definition is_space :: "char \<Rightarrow> bool" where
  "is_space c = (let n = (of_char c :: nat) in n = 32 \<or> (9 \<le> n \<and> n \<le> 13))"

fun fromhex :: "string \<Rightarrow> 8 word list option" where
  "fromhex [] = Some []"
| "fromhex [c] = (if is_space c then Some [] else None)"
| "fromhex (c # d # cs) =
     (if is_space c then fromhex (d # cs)
      else (case (hex_digit c, hex_digit d) of
              (Some a, Some b) \<Rightarrow> map_option ((#) (of_nat (16 * a + b))) (fromhex cs)
            | _ \<Rightarrow> None))"

fun hexlify :: "8 word list \<Rightarrow> string" where
  "hexlify [] = []"
| "hexlify (b # bs) = hex_char (unat b div 16) # hex_char (unat b mod 16) # hexlify bs"

definition is_valid :: "string \<Rightarrow> bool" where
  "is_valid s = (length s = 24 \<and> fromhex s \<noteq> None)"

definition ObjectId :: "string \<Rightarrow> error + 8 word list" where
  "ObjectId s =
     (if length s = 24
      then (case fromhex s of None \<Rightarrow> Inl InvalidId | Some bs \<Rightarrow> Inr bs)
      else Inl InvalidId)"

text \<open>
  The 12 bytes of a stored identifier, most significant first, and back: a byte string
  of any other length is no stored identifier.
\<close>

fun be_bytes :: "nat \<Rightarrow> nat \<Rightarrow> 8 word list" where
  "be_bytes 0 n = []"
| "be_bytes (Suc k) n = be_bytes k (n div 256) @ [of_nat (n mod 256)]"

fun bytes_value :: "nat \<Rightarrow> 8 word list \<Rightarrow> nat" where
  "bytes_value acc [] = acc"
| "bytes_value acc (b # bs) = bytes_value (256 * acc + unat b) bs"

definition oid_bytes :: "objid \<Rightarrow> 8 word list" where
  "oid_bytes w = be_bytes 12 (unat w)"

definition bson_oid :: "8 word list \<Rightarrow> objid option" where
  "bson_oid bs = (if length bs = 12 then Some (of_nat (bytes_value 0 bs)) else None)"

definition str_oid :: "objid \<Rightarrow> string" where
  "str_oid w = hexlify (oid_bytes w)"

subsection \<open>datetime and timedelta\<close>

text \<open>
  A \<^verbatim>\<open>datetime\<close> is an instant counted in microseconds (its resolution) together
  with the flag that tells an aware value from a naive one. The handlers only build
  UTC values: \<^verbatim>\<open>datetime.now(timezone.utc)\<close> is aware, \<^verbatim>\<open>datetime.utcnow()\<close> is
  naive. Subtracting an aware and a naive value raises \<^verbatim>\<open>TypeError\<close>.

  A \<^verbatim>\<open>timedelta\<close> is normalised by Python to \<open>days\<close>, \<open>0 \<le> seconds < 86400\<close> and
  \<open>0 \<le> microseconds < 1000000\<close>; only \<open>days\<close> may be negative.
\<close>

record datetime =
  micros :: int
  tzaware :: bool

record timedelta =
  td_days :: int
  td_seconds :: int
  td_microseconds :: int

definition now_utc :: "int \<Rightarrow> datetime" where
  "now_utc t = \<lparr>micros = t, tzaware = True\<rparr>"

definition utcnow :: "int \<Rightarrow> datetime" where
  "utcnow t = \<lparr>micros = t, tzaware = False\<rparr>"

definition timedelta_of_micros :: "int \<Rightarrow> timedelta" where
  "timedelta_of_micros us =
     \<lparr>td_days = us div 86400000000,
      td_seconds = (us mod 86400000000) div 1000000,
      td_microseconds = us mod 1000000\<rparr>"

definition datetime_sub :: "datetime \<Rightarrow> datetime \<Rightarrow> error + timedelta" where
  "datetime_sub a b =
     (if tzaware a \<noteq> tzaware b then Inl TypeError
      else Inr (timedelta_of_micros (micros a - micros b)))"

subsection \<open>Values and dictionaries\<close>

text \<open>
  The values a stored document holds. Floating-point numbers are kept abstract: the
  type \<open>'f\<close> stands for Python's \<^verbatim>\<open>float\<close>, and the operations on it that the
  program uses are the fields of \<open>pylib\<close>, so every theorem below holds for whatever
  these operations compute, IEEE binary64 arithmetic included.
\<close>

datatype 'f pyval =
    VNone
  | VBool bool
  | VInt int
  | VFloat 'f
  | VStr string
  | VDate datetime
  | VOid objid

type_synonym 'f doc = "(string \<times> 'f pyval) list"

record 'f pylib =
  fmul :: "'f \<Rightarrow> 'f \<Rightarrow> 'f"
  fadd :: "'f \<Rightarrow> 'f \<Rightarrow> 'f"
  fround :: "'f \<Rightarrow> int \<Rightarrow> 'f"
  fzero :: "'f"
  f_bool :: "'f \<Rightarrow> bool"
  f_ge :: "'f \<Rightarrow> 'f \<Rightarrow> bool"
  float_of_int :: "int \<Rightarrow> 'f"
  float_of_str :: "string \<Rightarrow> 'f option"
  str_float :: "'f \<Rightarrow> string"
  str_int :: "int \<Rightarrow> string"
  str_datetime :: "datetime \<Rightarrow> string"
  iso_utc :: "datetime \<Rightarrow> string"

text \<open>\<^verbatim>\<open>d.get(k)\<close> and \<^verbatim>\<open>d.get(k, default)\<close>.\<close>

definition dict_get :: "'f doc \<Rightarrow> string \<Rightarrow> 'f pyval" where
  "dict_get d k = (case map_of d k of None \<Rightarrow> VNone | Some v \<Rightarrow> v)"

definition dict_get_default :: "'f doc \<Rightarrow> string \<Rightarrow> 'f pyval \<Rightarrow> 'f pyval" where
  "dict_get_default d k dflt = (case map_of d k of None \<Rightarrow> dflt | Some v \<Rightarrow> v)"

text \<open>Truth value of a Python object, as \<^verbatim>\<open>if\<close>, \<^verbatim>\<open>not\<close> and \<^verbatim>\<open>or\<close> read it.\<close>

fun py_bool :: "'f pylib \<Rightarrow> 'f pyval \<Rightarrow> bool" where
  "py_bool lib VNone = False"
| "py_bool lib (VBool b) = b"
| "py_bool lib (VInt i) = (i \<noteq> 0)"
| "py_bool lib (VFloat x) = f_bool lib x"
| "py_bool lib (VStr s) = (s \<noteq> [])"
| "py_bool lib (VDate d) = True"
| "py_bool lib (VOid w) = True"

text \<open>\<^verbatim>\<open>str(v)\<close>.\<close>

fun py_str :: "'f pylib \<Rightarrow> 'f pyval \<Rightarrow> string" where
  "py_str lib VNone = ''None''"
| "py_str lib (VBool b) = (if b then ''True'' else ''False'')"
| "py_str lib (VInt i) = str_int lib i"
| "py_str lib (VFloat x) = str_float lib x"
| "py_str lib (VStr s) = s"
| "py_str lib (VDate d) = str_datetime lib d"
| "py_str lib (VOid w) = str_oid w"

text \<open>
  The conversion of an \<^verbatim>\<open>int\<close> to \<^verbatim>\<open>float\<close>, as \<^verbatim>\<open>float(i)\<close> and \<^verbatim>\<open>i * x\<close> make it:
  it rounds to the nearest float and raises \<^verbatim>\<open>OverflowError\<close> when that is beyond the
  largest one, which is the case from \<open>2 ^ 1024 - 2 ^ 970\<close> on.
\<close>

definition int_to_float :: "'f pylib \<Rightarrow> int \<Rightarrow> error + 'f" where
  "int_to_float lib i =
     (if 2 ^ 1024 - 2 ^ 970 \<le> \<bar>i\<bar> then Inl OverflowError else Inr (float_of_int lib i))"

text \<open>\<^verbatim>\<open>float(v)\<close>.\<close>

fun py_float :: "'f pylib \<Rightarrow> 'f pyval \<Rightarrow> error + 'f" where
  "py_float lib (VFloat x) = Inr x"
| "py_float lib (VInt i) = int_to_float lib i"
| "py_float lib (VBool b) = Inr (float_of_int lib (if b then 1 else 0))"
| "py_float lib (VStr s) =
     (case float_of_str lib s of None \<Rightarrow> Inl ValueError | Some x \<Rightarrow> Inr x)"
| "py_float lib v = Inl TypeError"

text \<open>
  \<^verbatim>\<open>a - b\<close> followed by the reads of \<^verbatim>\<open>.days\<close> and \<^verbatim>\<open>.seconds\<close>: only two datetimes
  give a timedelta. Two numbers subtract to a number, which has no attribute
  \<^verbatim>\<open>days\<close>; every other pair of operands has no subtraction.
\<close>

fun is_number :: "'f pyval \<Rightarrow> bool" where
  "is_number (VBool b) = True"
| "is_number (VInt i) = True"
| "is_number (VFloat x) = True"
| "is_number v = False"

fun py_duration :: "'f pyval \<Rightarrow> 'f pyval \<Rightarrow> error + timedelta" where
  "py_duration (VDate a) (VDate b) = datetime_sub a b"
| "py_duration a b = (if is_number a \<and> is_number b then Inl AttributeError else Inl TypeError)"

section \<open>Invoice computation\<close>

text \<open>
  \<^verbatim>\<open>compute_invoice(car, rental, tax_rate)\<close> of \<^verbatim>\<open>src/main.py\<close>. The argument \<open>now\<close>
  is the reading \<^verbatim>\<open>datetime.now(timezone.utc)\<close> would give in the fallback for a
  missing \<^verbatim>\<open>end_date\<close>. The result is the dictionary \<^verbatim>\<open>model_dump()\<close> returns, its
  keys in the order the \<^verbatim>\<open>Invoice\<close> schema declares them. The schema validates
  \<^verbatim>\<open>customer_name\<close> as a string; the other fields have their types by construction.
\<close>

definition or_zero :: "'f pylib \<Rightarrow> 'f option \<Rightarrow> 'f" where
  "or_zero lib t =
     (case t of None \<Rightarrow> fzero lib
      | Some x \<Rightarrow> if f_bool lib x then x else fzero lib)"

definition billed_days :: "timedelta \<Rightarrow> int" where
  "billed_days duration =
     max 1 (td_days duration + (if td_seconds duration > 0 then 1 else 0))"

definition compute_invoice ::
  "'f pylib \<Rightarrow> int \<Rightarrow> 'f doc \<Rightarrow> 'f doc \<Rightarrow> 'f option \<Rightarrow> error + 'f doc" where
  "compute_invoice lib now car rental tax_rate =
     (let start_dt = dict_get rental ''start_date'';
          end_dt = (let e = dict_get rental ''end_date''
                    in if py_bool lib e then e else VDate (now_utc now))
      in (case py_duration end_dt start_dt of
            Inl e \<Rightarrow> Inl e
          | Inr duration \<Rightarrow>
      (let days = billed_days duration
       in (case py_float lib (dict_get_default car ''daily_rate'' (VFloat (fzero lib))) of
             Inl e \<Rightarrow> Inl e
           | Inr daily_rate \<Rightarrow>
      (case int_to_float lib days of
             Inl e \<Rightarrow> Inl e
           | Inr fdays \<Rightarrow>
      (let subtotal = fround lib (fmul lib fdays daily_rate) 2;
           tax_amount = fround lib (fmul lib subtotal (or_zero lib tax_rate)) 2;
           total = fround lib (fadd lib subtotal tax_amount) 2
       in (case map_of rental ''_id'' of
             None \<Rightarrow> Inl (KeyError ''_id'')
           | Some rid \<Rightarrow>
      (case map_of car ''_id'' of
             None \<Rightarrow> Inl (KeyError ''_id'')
           | Some cid \<Rightarrow>
      (case map_of rental ''customer_name'' of
             None \<Rightarrow> Inl (KeyError ''customer_name'')
           | Some (VStr name) \<Rightarrow>
               Inr [(''rental_id'', VStr (py_str lib rid)),
                    (''car_id'', VStr (py_str lib cid)),
                    (''customer_name'', VStr name),
                    (''start_date'', start_dt),
                    (''end_date'', end_dt),
                    (''days'', VInt days),
                    (''daily_rate'', VFloat daily_rate),
                    (''subtotal'', VFloat subtotal),
                    (''tax_rate'', VFloat (or_zero lib tax_rate)),
                    (''tax_amount'', VFloat tax_amount),
                    (''total'', VFloat total),
                    (''items'', VNone)]
           | Some v \<Rightarrow> Inl ValidationError)))))))))"

section \<open>The document store\<close>

text \<open>
  The database maps a collection name to the list of its documents, in storage order.
  What the driver does is written out: a value is encoded to BSON when written, so a
  datetime comes back with millisecond precision and naive, in UTC; a query
  \<^verbatim>\<open>{"_id": v}\<close> or \<^verbatim>\<open>{key: v}\<close> selects the documents whose field equals \<open>v\<close>;
  \<^verbatim>\<open>find_one\<close> returns the first one, \<^verbatim>\<open>update_one\<close> with \<^verbatim>\<open>$set\<close> changes the first
  one, and \<^verbatim>\<open>insert_one\<close> appends a document under a new \<^verbatim>\<open>_id\<close>, which the store
  keeps unique in a collection (the dictionaries the handlers insert are dumps of the
  schemas and have no \<^verbatim>\<open>_id\<close> of their own).
\<close>

type_synonym 'f database = "(string \<times> 'f doc list) list"

definition collection :: "'f database \<Rightarrow> string \<Rightarrow> 'f doc list" where
  "collection db name = (case map_of db name of None \<Rightarrow> [] | Some ds \<Rightarrow> ds)"

definition set_collection :: "string \<Rightarrow> 'f doc list \<Rightarrow> 'f database \<Rightarrow> 'f database" where
  "set_collection name ds db = AList.update name ds db"

fun bson_value :: "'f pyval \<Rightarrow> 'f pyval" where
  "bson_value (VDate d) = VDate \<lparr>micros = (micros d div 1000) * 1000, tzaware = False\<rparr>"
| "bson_value v = v"

definition bson_doc :: "'f doc \<Rightarrow> 'f doc" where
  "bson_doc d = map (\<lambda>(k, v). (k, bson_value v)) d"

definition field_is :: "string \<Rightarrow> 'f pyval \<Rightarrow> 'f doc \<Rightarrow> bool" where
  "field_is k v d = (map_of d k = Some v)"

definition find_one :: "string \<Rightarrow> 'f pyval \<Rightarrow> 'f doc list \<Rightarrow> 'f doc option" where
  "find_one k v ds = List.find (field_is k v) ds"

text \<open>
  \<^verbatim>\<open>find_one({"_id": oid})\<close> for a Python ObjectId: it selects by the stored identifier
  the bytes make up, and an ObjectId of another length than 12 bytes equals no stored
  identifier.
\<close>

definition find_by_id :: "8 word list \<Rightarrow> 'f doc list \<Rightarrow> 'f doc option" where
  "find_by_id bs ds =
     (case bson_oid bs of None \<Rightarrow> None | Some w \<Rightarrow> find_one ''_id'' (VOid w) ds)"

definition find_all :: "string \<Rightarrow> 'f pyval \<Rightarrow> 'f doc list \<Rightarrow> 'f doc list" where
  "find_all k v ds = filter (field_is k v) ds"

definition set_fields :: "'f doc \<Rightarrow> 'f doc \<Rightarrow> 'f doc" where
  "set_fields changes d = fold (\<lambda>(k, v). AList.update k (bson_value v)) changes d"

fun update_one :: "string \<Rightarrow> 'f pyval \<Rightarrow> 'f doc \<Rightarrow> 'f doc list \<Rightarrow> 'f doc list" where
  "update_one k v changes [] = []"
| "update_one k v changes (d # ds) =
     (if field_is k v d then set_fields changes d # ds
      else d # update_one k v changes ds)"

definition insert_one :: "objid \<Rightarrow> 'f doc \<Rightarrow> 'f doc list \<Rightarrow> error + 'f doc list" where
  "insert_one oid data ds =
     (if find_one ''_id'' (VOid oid) ds \<noteq> None then Inl DuplicateKeyError
      else Inr (ds @ [(''_id'', VOid oid) # bson_doc data]))"

text \<open>
  Modelled from the spec: the persistence accessor \<^verbatim>\<open>database.py\<close> is not among the
  sources. Its contract in the specification: \<^verbatim>\<open>create(collection, record) -> id\<close>
  "inserts a record, returns its newly assigned identifier", and
  \<^verbatim>\<open>list(collection)\<close> "returns all documents in a collection, in storage order";
  failures propagate as store-level errors. The identifier is returned as the string
  the handlers hand to \<^verbatim>\<open>ObjectId\<close>; \<open>oid\<close> is the identifier the driver generates.
\<close>

definition create_document ::
  "objid \<Rightarrow> string \<Rightarrow> 'f doc \<Rightarrow> 'f database \<Rightarrow> 'f database \<times> (error + string)" where
  "create_document oid name data db =
     (case insert_one oid data (collection db name) of
        Inl e \<Rightarrow> (db, Inl e)
      | Inr ds \<Rightarrow> (set_collection name ds db, Inr (str_oid oid)))"

definition get_documents :: "string \<Rightarrow> 'f database \<Rightarrow> 'f doc list" where
  "get_documents name db = collection db name"

section \<open>The request handlers\<close>

text \<open>
  A handler that writes returns the store it leaves behind together with its answer:
  the writes are separate and nothing rolls them back, so an exception raised after a
  write leaves that write in place.
\<close>

definition serialize_value :: "'f pylib \<Rightarrow> 'f pyval \<Rightarrow> 'f pyval" where
  "serialize_value lib v =
     (case v of
        VOid w \<Rightarrow> VStr (str_oid w)
      | VDate d \<Rightarrow> VStr (iso_utc lib d)
      | _ \<Rightarrow> v)"

definition serialize_doc :: "'f pylib \<Rightarrow> 'f doc \<Rightarrow> 'f doc" where
  "serialize_doc lib d = map (\<lambda>(k, v). (k, serialize_value lib v)) d"

text \<open>Truth value of what \<^verbatim>\<open>find_one\<close> returns: \<^verbatim>\<open>None\<close> and the empty dict are false.\<close>

definition doc_bool :: "'f doc option \<Rightarrow> bool" where
  "doc_bool r = (case r of None \<Rightarrow> False | Some d \<Rightarrow> d \<noteq> [])"

text \<open>
  \<^verbatim>\<open>ObjectId(v)\<close> on a stored value: a string is parsed, an ObjectId is taken as it
  is, \<^verbatim>\<open>None\<close> makes the constructor generate a new identifier (\<open>gen\<close>), anything else
  is a \<^verbatim>\<open>TypeError\<close>.
\<close>

fun ObjectId_of :: "objid \<Rightarrow> 'f pyval \<Rightarrow> error + 8 word list" where
  "ObjectId_of gen (VStr s) = ObjectId s"
| "ObjectId_of gen (VOid w) = Inr (oid_bytes w)"
| "ObjectId_of gen VNone = Inr (oid_bytes gen)"
| "ObjectId_of gen v = Inl TypeError"

subsection \<open>Cars\<close>

definition list_cars :: "'f pylib \<Rightarrow> 'f database \<Rightarrow> 'f doc list" where
  "list_cars lib db = map (serialize_doc lib) (get_documents ''car'' db)"

record 'f CreateCarRequest =
  cc_make :: string
  cc_model :: string
  cc_year :: int
  cc_plate_number :: string
  cc_daily_rate :: 'f

text \<open>
  The \<^verbatim>\<open>Car\<close> schema of \<^verbatim>\<open>src/schemas.py\<close>: \<^verbatim>\<open>year\<close> between 1900 and 2100,
  \<^verbatim>\<open>daily_rate\<close> at least 0; the dictionary is the one \<^verbatim>\<open>model_dump()\<close> gives.
\<close>

definition CarSchema ::
  "'f pylib \<Rightarrow> string \<Rightarrow> string \<Rightarrow> int \<Rightarrow> string \<Rightarrow> 'f \<Rightarrow> bool \<Rightarrow> error + 'f doc" where
  "CarSchema lib mk mdl yr plate rate avail =
     (if yr < 1900 \<or> 2100 < yr \<or> \<not> f_ge lib rate (fzero lib) then Inl ValidationError
      else Inr [(''make'', VStr mk), (''model'', VStr mdl), (''year'', VInt yr),
                (''plate_number'', VStr plate), (''daily_rate'', VFloat rate),
                (''available'', VBool avail)])"

definition add_car ::
  "'f pylib \<Rightarrow> objid \<Rightarrow> 'f CreateCarRequest \<Rightarrow> 'f database \<Rightarrow> 'f database \<times> (error + 'f doc)" where
  "add_car lib oid payload db =
     (let existing = find_one ''plate_number'' (VStr (cc_plate_number payload)) (collection db ''car'')
      in if doc_bool existing
         then (db, Inl (HTTPException 400 ''Plate number already exists''))
         else (case CarSchema lib (cc_make payload) (cc_model payload) (cc_year payload)
                      (cc_plate_number payload) (cc_daily_rate payload) True of
                 Inl e \<Rightarrow> (db, Inl e)
               | Inr car \<Rightarrow>
           (case create_document oid ''car'' car db of
                 (db1, Inl e) \<Rightarrow> (db1, Inl e)
               | (db1, Inr car_id) \<Rightarrow>
           (case ObjectId car_id of
                 Inl e \<Rightarrow> (db1, Inl e)
               | Inr bs \<Rightarrow>
           (case find_by_id bs (collection db1 ''car'') of
                 None \<Rightarrow> (db1, Inl AttributeError)
               | Some created \<Rightarrow> (db1, Inr (serialize_doc lib created)))))))"

subsection \<open>The two updates\<close>

text \<open>
  The handlers change stored documents in two ways only: \<^verbatim>\<open>db["car"].update_one\<close>
  sets \<^verbatim>\<open>available\<close> and \<^verbatim>\<open>updated_at\<close> of the car selected by \<^verbatim>\<open>_id\<close>, and
  \<^verbatim>\<open>db["rental"].update_one\<close> sets \<^verbatim>\<open>end_date\<close>, \<^verbatim>\<open>status\<close> and \<^verbatim>\<open>updated_at\<close> of the
  rental selected by \<^verbatim>\<open>_id\<close>.
\<close>

definition set_car_available :: "bool \<Rightarrow> int \<Rightarrow> 'f pyval \<Rightarrow> 'f database \<Rightarrow> 'f database" where
  "set_car_available b t_upd cid db =
     set_collection ''car''
       (update_one ''_id'' cid
          [(''available'', VBool b), (''updated_at'', VDate (now_utc t_upd))]
          (collection db ''car'')) db"

definition set_rental_returned :: "int \<Rightarrow> int \<Rightarrow> 'f pyval \<Rightarrow> 'f database \<Rightarrow> 'f database" where
  "set_rental_returned t_end t_upd rid db =
     set_collection ''rental''
       (update_one ''_id'' rid
          [(''end_date'', VDate (now_utc t_end)), (''status'', VStr ''returned''),
           (''updated_at'', VDate (now_utc t_upd))]
          (collection db ''rental'')) db"

subsection \<open>Rentals\<close>

record StartRentalRequest =
  sr_car_id :: string
  sr_customer_name :: string

text \<open>
  The \<^verbatim>\<open>Rental\<close> schema: \<^verbatim>\<open>start_date\<close> defaults to \<^verbatim>\<open>datetime.utcnow()\<close>, read at
  \<open>t_start\<close>; \<^verbatim>\<open>end_date\<close> to \<^verbatim>\<open>None\<close>; \<^verbatim>\<open>status\<close> to \<^verbatim>\<open>"active"\<close>.
\<close>

definition RentalSchema :: "int \<Rightarrow> string \<Rightarrow> string \<Rightarrow> 'f doc" where
  "RentalSchema t_start car_id customer_name =
     [(''car_id'', VStr car_id), (''customer_name'', VStr customer_name),
      (''start_date'', VDate (utcnow t_start)), (''end_date'', VNone),
      (''status'', VStr ''active'')]"

definition start_rental ::
  "'f pylib \<Rightarrow> objid \<Rightarrow> int \<Rightarrow> int \<Rightarrow> StartRentalRequest \<Rightarrow> 'f database
     \<Rightarrow> 'f database \<times> (error + 'f doc)" where
  "start_rental lib oid t_start t_upd payload db =
     (if \<not> is_valid (sr_car_id payload)
      then (db, Inl (HTTPException 400 ''Invalid car_id''))
      else
     (case ObjectId (sr_car_id payload) of
        Inl e \<Rightarrow> (db, Inl e)
      | Inr bs \<Rightarrow>
     (case find_by_id bs (collection db ''car'') of
        None \<Rightarrow> (db, Inl (HTTPException 404 ''Car not found''))
      | Some car \<Rightarrow>
         if \<not> doc_bool (Some car) then (db, Inl (HTTPException 404 ''Car not found''))
         else if \<not> py_bool lib (dict_get_default car ''available'' (VBool True))
         then (db, Inl (HTTPException 400 ''Car is not available''))
         else (case map_of car ''_id'' of
                 None \<Rightarrow> (db, Inl (KeyError ''_id''))
               | Some cid \<Rightarrow>
           (case create_document oid ''rental''
                   (RentalSchema t_start (py_str lib cid) (sr_customer_name payload)) db of
                 (db1, Inl e) \<Rightarrow> (db1, Inl e)
               | (db1, Inr rental_id) \<Rightarrow>
           (let db2 = set_car_available False t_upd cid db1
            in (case ObjectId rental_id of
                  Inl e \<Rightarrow> (db2, Inl e)
                | Inr rs \<Rightarrow>
               (case find_by_id rs (collection db2 ''rental'') of
                  None \<Rightarrow> (db2, Inl AttributeError)
                | Some created \<Rightarrow> (db2, Inr (serialize_doc lib created))))))))))"

definition list_active_rentals :: "'f pylib \<Rightarrow> 'f database \<Rightarrow> 'f doc list" where
  "list_active_rentals lib db =
     map (serialize_doc lib) (find_all ''status'' (VStr ''active'') (collection db ''rental''))"

subsection \<open>Return and invoice\<close>

record 'f ReturnRentalRequest =
  rr_tax_rate :: "'f option"

text \<open>
  \<open>oid\<close> is the identifier the driver gives the invoice; \<open>t_end\<close>, \<open>t_upd_rental\<close>
  and \<open>t_upd_car\<close> are the three readings of the clock the handler takes, \<open>t_now\<close> the
  one \<^verbatim>\<open>compute_invoice\<close> would take in its fallback.
\<close>

definition return_rental ::
  "'f pylib \<Rightarrow> objid \<Rightarrow> objid \<Rightarrow> int \<Rightarrow> int \<Rightarrow> int \<Rightarrow> int \<Rightarrow> string \<Rightarrow> 'f ReturnRentalRequest
     \<Rightarrow> 'f database \<Rightarrow> 'f database \<times> (error + 'f doc \<times> 'f doc)" where
  "return_rental lib oid gen t_end t_upd_rental t_upd_car t_now rental_id payload db =
     (if \<not> is_valid rental_id
      then (db, Inl (HTTPException 400 ''Invalid rental_id''))
      else
     (case ObjectId rental_id of
        Inl e \<Rightarrow> (db, Inl e)
      | Inr bs \<Rightarrow>
     (case find_by_id bs (collection db ''rental'') of
        None \<Rightarrow> (db, Inl (HTTPException 404 ''Rental not found''))
      | Some rental \<Rightarrow>
         if \<not> doc_bool (Some rental) then (db, Inl (HTTPException 404 ''Rental not found''))
         else if dict_get rental ''status'' = VStr ''returned''
         then (db, Inl (HTTPException 400 ''Rental already returned''))
         else (case map_of rental ''car_id'' of
                 None \<Rightarrow> (db, Inl (KeyError ''car_id''))
               | Some car_ref \<Rightarrow>
           (case ObjectId_of gen car_ref of
                 Inl e \<Rightarrow> (db, Inl e)
               | Inr cs \<Rightarrow>
           (case find_by_id cs (collection db ''car'') of
                 None \<Rightarrow> (db, Inl (HTTPException 404 ''Car for rental not found''))
               | Some car \<Rightarrow>
                  if \<not> doc_bool (Some car)
                  then (db, Inl (HTTPException 404 ''Car for rental not found''))
                  else (case map_of rental ''_id'' of
                          None \<Rightarrow> (db, Inl (KeyError ''_id''))
                        | Some rid \<Rightarrow>
           (let db1 = set_rental_returned t_end t_upd_rental rid db
            in (case map_of car ''_id'' of
                  None \<Rightarrow> (db1, Inl (KeyError ''_id''))
                | Some cid \<Rightarrow>
           (let db2 = set_car_available True t_upd_car cid db1
            in (case find_one ''_id'' rid (collection db2 ''rental'') of
                  None \<Rightarrow> (db2, Inl AttributeError)
                | Some rental2 \<Rightarrow>
           (case compute_invoice lib t_now car rental2
                   (Some (or_zero lib (rr_tax_rate payload))) of
                  Inl e \<Rightarrow> (db2, Inl e)
                | Inr invoice_data \<Rightarrow>
           (case create_document oid ''invoice'' invoice_data db2 of
                  (db3, Inl e) \<Rightarrow> (db3, Inl e)
                | (db3, Inr invoice_id) \<Rightarrow>
           (case ObjectId invoice_id of
                  Inl e \<Rightarrow> (db3, Inl e)
                | Inr ibs \<Rightarrow>
           (case find_by_id ibs (collection db3 ''invoice'') of
                  None \<Rightarrow> (db3, Inl AttributeError)
                | Some invoice \<Rightarrow>
                    (db3, Inr (serialize_doc lib rental2, serialize_doc lib invoice)))))))))))))))))"

subsection \<open>Invoices\<close>

definition list_invoices :: "'f pylib \<Rightarrow> 'f database \<Rightarrow> 'f doc list" where
  "list_invoices lib db = map (serialize_doc lib) (get_documents ''invoice'' db)"

definition get_invoice :: "'f pylib \<Rightarrow> string \<Rightarrow> 'f database \<Rightarrow> error + 'f doc" where
  "get_invoice lib invoice_id db =
     (if \<not> is_valid invoice_id
      then Inl (HTTPException 400 ''Invalid invoice_id'')
      else
     (case ObjectId invoice_id of
        Inl e \<Rightarrow> Inl e
      | Inr bs \<Rightarrow>
     (case find_by_id bs (collection db ''invoice'') of
        None \<Rightarrow> Inl (HTTPException 404 ''Invoice not found'')
      | Some invoice \<Rightarrow>
         if \<not> doc_bool (Some invoice) then Inl (HTTPException 404 ''Invoice not found'')
         else Inr (serialize_doc lib invoice))))"

subsection \<open>The routes\<close>

text \<open>
  The routes the decorators of \<^verbatim>\<open>src/main.py\<close> declare, by method and path segments.
  A path parameter stands for one non-empty segment. A path no route has is answered
  404 \<^verbatim>\<open>Not Found\<close>, a path that has routes for other methods only 405.
\<close>

datatype http_method = GET | POST

datatype endpoint =
    ReadRoot
  | ListCars
  | AddCar
  | StartRental
  | ListActiveRentals
  | ReturnRental string
  | ListInvoices
  | GetInvoice string
  | TestDatabase

definition route :: "http_method \<Rightarrow> string list \<Rightarrow> error + endpoint" where
  "route m path =
     (if path = [] then
        (if m = GET then Inr ReadRoot else Inl (HTTPException 405 ''Method Not Allowed''))
      else if path = [''api'', ''cars''] then
        (if m = GET then Inr ListCars else Inr AddCar)
      else if path = [''api'', ''rentals'', ''start''] then
        (if m = POST then Inr StartRental else Inl (HTTPException 405 ''Method Not Allowed''))
      else if path = [''api'', ''rentals'', ''active''] then
        (if m = GET then Inr ListActiveRentals else Inl (HTTPException 405 ''Method Not Allowed''))
      else if length path = 4 \<and> take 2 path = [''api'', ''rentals''] \<and> path ! 2 \<noteq> []
              \<and> path ! 3 = ''return'' then
        (if m = POST then Inr (ReturnRental (path ! 2))
         else Inl (HTTPException 405 ''Method Not Allowed''))
      else if path = [''api'', ''invoices''] then
        (if m = GET then Inr ListInvoices else Inl (HTTPException 405 ''Method Not Allowed''))
      else if length path = 3 \<and> take 2 path = [''api'', ''invoices''] \<and> path ! 2 \<noteq> [] then
        (if m = GET then Inr (GetInvoice (path ! 2))
         else Inl (HTTPException 405 ''Method Not Allowed''))
      else if path = [''test''] then
        (if m = GET then Inr TestDatabase else Inl (HTTPException 405 ''Method Not Allowed''))
      else Inl (HTTPException 404 ''Not Found''))"

section \<open>Reachable stores\<close>

text \<open>
  The stores the service can be in: it starts with cars only (no rental and no invoice
  yet), and every call of a writing handler, whatever its outcome, leads from one
  store to the next.
\<close>

definition initial :: "'f database \<Rightarrow> bool" where
  "initial db = (collection db ''rental'' = [] \<and> collection db ''invoice'' = [])"

inductive reachable :: "'f pylib \<Rightarrow> 'f database \<Rightarrow> bool" for lib :: "'f pylib" where
  reach_initial: "initial db \<Longrightarrow> reachable lib db"
| reach_add_car: "reachable lib db \<Longrightarrow> reachable lib (fst (add_car lib oid payload db))"
| reach_start: "reachable lib db \<Longrightarrow>
     reachable lib (fst (start_rental lib oid t_start t_upd start_payload db))"
| reach_return: "reachable lib db \<Longrightarrow>
     reachable lib
       (fst (return_rental lib oid gen t_end t_upd_rental t_upd_car t_now rental_id
               return_payload db))"

text \<open>
  The vocabulary of the rental invariant: the active rentals are those the query of
  \<^verbatim>\<open>list_active_rentals\<close> selects; the car a rental references is the one its
  \<^verbatim>\<open>car_id\<close> parses to.
\<close>

definition active_rentals :: "'f database \<Rightarrow> 'f doc list" where
  "active_rentals db = find_all ''status'' (VStr ''active'') (collection db ''rental'')"

definition car_of_rental :: "'f doc \<Rightarrow> objid option" where
  "car_of_rental r =
     (case map_of r ''car_id'' of
        Some (VStr s) \<Rightarrow> (case ObjectId s of Inr bs \<Rightarrow> bson_oid bs | Inl e \<Rightarrow> None)
      | _ \<Rightarrow> None)"

definition car_unavailable :: "'f database \<Rightarrow> objid \<Rightarrow> bool" where
  "car_unavailable db w =
     (case find_one ''_id'' (VOid w) (collection db ''car'') of
        Some car \<Rightarrow> map_of car ''available'' = Some (VBool False)
      | None \<Rightarrow> False)"

definition holds_car :: "'f database \<Rightarrow> 'f doc \<Rightarrow> bool" where
  "holds_car db r = (case car_of_rental r of Some w \<Rightarrow> car_unavailable db w | None \<Rightarrow> False)"

text \<open>
  The invariant of the rental collection: every rental is active or returned, no two
  active rentals reference the same car, and the car of every active rental is stored
  with \<^verbatim>\<open>available\<close> false.
\<close>

definition rental_inv :: "'f database \<Rightarrow> bool" where
  "rental_inv db =
     (list_all (\<lambda>r. map_of r ''status'' = Some (VStr ''active'')
                   \<or> map_of r ''status'' = Some (VStr ''returned'')) (collection db ''rental'')
      \<and> distinct (map car_of_rental (active_rentals db))
      \<and> list_all (holds_car db) (active_rentals db))"

text \<open>
  The invariant of the invoice collection: every invoice carries an ObjectId, and no
  two invoices carry the same one.
\<close>

definition oid_of :: "'f doc \<Rightarrow> objid option" where
  "oid_of d = (case map_of d ''_id'' of Some (VOid w) \<Rightarrow> Some w | _ \<Rightarrow> None)"

definition ids_unique :: "'f doc list \<Rightarrow> bool" where
  "ids_unique ds = (list_all (\<lambda>d. oid_of d \<noteq> None) ds \<and> distinct (map oid_of ds))"

definition invoice_inv :: "'f database \<Rightarrow> bool" where
  "invoice_inv db = ids_unique (collection db ''invoice'')"

section \<open>Identifiers and the store: basic facts\<close>

lemma hex_digit_hex_char: "d < 16 \<Longrightarrow> hex_digit (hex_char d) = Some d"
  by (auto simp: hex_digit_def hex_char_def Let_def)

lemma hex_char_not_space: "d < 16 \<Longrightarrow> \<not> is_space (hex_char d)"
  by (auto simp: is_space_def hex_char_def Let_def)

lemma fromhex_hexlify: "fromhex (hexlify bs) = Some bs"
proof (induction bs)
  case Nil
  show ?case by simp
next
  case (Cons b bs)
  have "unat b < 256"
    using unsigned_less [of b] by simp
  then have hi: "unat b div 16 < 16" and lo: "unat b mod 16 < 16"
    by simp_all
  have "(of_nat (16 * (unat b div 16) + unat b mod 16) :: 8 word) = b"
    by simp
  then show ?case
    using Cons hi lo by (simp add: hex_char_not_space hex_digit_hex_char)
qed

lemma length_hexlify: "length (hexlify bs) = 2 * length bs"
  by (induction bs) auto

lemma length_be_bytes: "length (be_bytes k n) = k"
  by (induction k arbitrary: n) auto

lemma bytes_value_append: "bytes_value acc (bs @ [b]) = 256 * bytes_value acc bs + unat b"
  by (induction bs arbitrary: acc) auto

lemma bytes_value_be_bytes: "bytes_value 0 (be_bytes k n) = n mod 256 ^ k"
proof (induction k arbitrary: n)
  case 0
  show ?case by simp
next
  case (Suc k)
  have "unat (of_nat (n mod 256) :: 8 word) = n mod 256"
    by (simp add: unat_of_nat)
  then have "bytes_value 0 (be_bytes (Suc k) n) = 256 * ((n div 256) mod 256 ^ k) + n mod 256"
    by (simp add: bytes_value_append Suc)
  also have "\<dots> = n mod 256 ^ Suc k"
    by (simp add: mod_mult2_eq)
  finally show ?case .
qed

lemma bson_oid_bytes: "bson_oid (oid_bytes w) = Some w"
proof -
  have "unat w < 2 ^ 96"
    using unsigned_less [of w] by simp
  then have "unat w mod 256 ^ 12 = unat w"
    by simp
  then show ?thesis
    by (simp add: bson_oid_def oid_bytes_def length_be_bytes bytes_value_be_bytes)
qed

lemma is_valid_str_oid: "is_valid (str_oid w)"
  by (simp add: is_valid_def str_oid_def length_hexlify oid_bytes_def length_be_bytes
        fromhex_hexlify)

lemma ObjectId_str_oid: "ObjectId (str_oid w) = Inr (oid_bytes w)"
  by (simp add: ObjectId_def str_oid_def length_hexlify oid_bytes_def length_be_bytes
        fromhex_hexlify)

lemma ObjectId_Inl: "ObjectId s = Inl e \<longleftrightarrow> \<not> is_valid s \<and> e = InvalidId"
  by (auto simp: ObjectId_def is_valid_def split: option.splits)

lemma ObjectId_Inr_valid: "ObjectId s = Inr bs \<Longrightarrow> is_valid s"
  by (auto simp: ObjectId_def is_valid_def split: if_splits option.splits)

lemma collection_set_collection:
  "collection (set_collection n ds db) m = (if m = n then ds else collection db m)"
  by (simp add: collection_def set_collection_def update_conv')

lemma find_one_Some: "find_one k v ds = Some d \<Longrightarrow> d \<in> set ds \<and> map_of d k = Some v"
  unfolding find_one_def field_is_def by (auto simp: find_Some_iff)

lemma find_one_None: "find_one k v ds = None \<longleftrightarrow> (\<forall>d\<in>set ds. map_of d k \<noteq> Some v)"
  unfolding find_one_def field_is_def by (auto simp: find_None_iff)

lemma find_one_nonempty: "find_one k v ds = Some d \<Longrightarrow> doc_bool (Some d)"
  by (auto simp: doc_bool_def dest!: find_one_Some)

lemma find_one_append:
  "find_one k v (ds @ es) =
     (case find_one k v ds of Some d \<Rightarrow> Some d | None \<Rightarrow> find_one k v es)"
  unfolding find_one_def by (induction ds) auto

lemma find_by_id_oid_bytes: "find_by_id (oid_bytes w) ds = find_one ''_id'' (VOid w) ds"
  by (simp add: find_by_id_def bson_oid_bytes)

lemma find_by_id_Some:
  "find_by_id bs ds = Some d \<Longrightarrow>
   \<exists>w. bson_oid bs = Some w \<and> find_one ''_id'' (VOid w) ds = Some d"
  by (auto simp: find_by_id_def split: option.splits)

lemma find_by_id_nonempty: "find_by_id bs ds = Some d \<Longrightarrow> doc_bool (Some d)"
  by (auto dest!: find_by_id_Some find_one_nonempty)

lemma map_of_set_fields_other:
  "k \<notin> fst ` set changes \<Longrightarrow> map_of (set_fields changes d) k = map_of d k"
  unfolding set_fields_def
  by (induction changes arbitrary: d) (auto simp: update_conv')

lemma find_one_update_one_other:
  "k \<notin> fst ` set changes \<Longrightarrow> find_one k v (update_one k u changes ds) =
     (if v = u then map_option (set_fields changes) (find_one k v ds) else find_one k v ds)"
  unfolding find_one_def
  by (induction ds) (auto simp: field_is_def map_of_set_fields_other)

section \<open>Starting a rental: the error answers\<close>



section \<open>Starting a rental: all three refusals\<close>




section \<open>Returning a rental twice\<close>

text \<open>
  Claim C4. Returning a rental whose status is already \<^verbatim>\<open>returned\<close> is answered 400
  \<^verbatim>\<open>Rental already returned\<close>, and the store the handler leaves is the store it was
  given: no invoice is added, and the rental and its car are as before.
\<close>

theorem return_rental_already_returned:
  "ObjectId rental_id = Inr bs \<Longrightarrow>
   find_by_id bs (collection db ''rental'') = Some rental \<Longrightarrow>
   map_of rental ''status'' = Some (VStr ''returned'') \<Longrightarrow>
   return_rental lib oid gen t_end t_upd_rental t_upd_car t_now rental_id payload db =
     (db, Inl (HTTPException 400 ''Rental already returned''))"
  by (auto simp: return_rental_def dict_get_def dest: find_by_id_nonempty ObjectId_Inr_valid)

theorem return_rental_already_returned_witness:
  "\<forall>(lib :: 'f pylib) payload.
     return_rental lib 1 2 0 0 0 0 ''0000000000000000000000ff'' payload
       [(''rental'', [[(''_id'', VOid 255), (''car_id'', VStr ''00000000000000000000000a''),
                       (''status'', VStr ''returned'')]])]
     = ([(''rental'', [[(''_id'', VOid 255), (''car_id'', VStr ''00000000000000000000000a''),
                       (''status'', VStr ''returned'')]])],
        Inl (HTTPException 400 ''Rental already returned''))"
proof (intro allI)
  fix lib :: "'f pylib" and payload :: "'f ReturnRentalRequest"
  let ?r = "[(''_id'', VOid 255), (''car_id'', VStr ''00000000000000000000000a''),
             (''status'', VStr ''returned'')] :: 'f doc"
  let ?db = "[(''rental'', [?r])] :: 'f database"
  let ?bs = "[0, 0, 0, 0, 0, 0, 0, 0, 0, 0, 0, 255] :: 8 word list"
  have a: "ObjectId ''0000000000000000000000ff'' = Inr ?bs"
    by (simp add: ObjectId_def hex_digit_def is_space_def)
  have b: "find_by_id ?bs (collection ?db ''rental'') = Some ?r"
    by (simp add: find_by_id_def bson_oid_def find_one_def collection_def field_is_def)
  have c: "map_of ?r ''status'' = Some (VStr ''returned'')"
    by simp
  show "return_rental lib 1 2 0 0 0 0 ''0000000000000000000000ff'' payload ?db
          = (?db, Inl (HTTPException 400 ''Rental already returned''))"
    by (rule return_rental_already_returned [OF a b c])
qed

section \<open>Unique plate numbers\<close>

text \<open>
  Claim C8. When some stored car has the plate number of the request, creating the car
  is answered 400 \<^verbatim>\<open>Plate number already exists\<close> whatever the other fields are (the
  schema's bounds on year and rate are checked only afterwards), and nothing is
  inserted: the store is unchanged.
\<close>

theorem add_car_duplicate_plate:
  "d \<in> set (collection db ''car'') \<Longrightarrow>
   map_of d ''plate_number'' = Some (VStr (cc_plate_number payload)) \<Longrightarrow>
   add_car lib oid payload db = (db, Inl (HTTPException 400 ''Plate number already exists''))"
proof -
  assume a: "d \<in> set (collection db ''car'')"
    and b: "map_of d ''plate_number'' = Some (VStr (cc_plate_number payload))"
  then have "find_one ''plate_number'' (VStr (cc_plate_number payload)) (collection db ''car'') \<noteq> None"
    by (auto simp: find_one_None)
  then obtain e where "find_one ''plate_number'' (VStr (cc_plate_number payload)) (collection db ''car'') = Some e"
    by auto
  then show ?thesis
    using find_one_nonempty [of "''plate_number''" _ _ e]
    by (simp add: add_car_def Let_def)
qed

theorem add_car_duplicate_plate_witness:
  "\<forall>(lib :: 'f pylib) rate.
     add_car lib 1
       \<lparr>cc_make = ''Fiat'', cc_model = ''Uno'', cc_year = 1800, cc_plate_number = ''AB-1'',
        cc_daily_rate = rate\<rparr>
       [(''car'', [[(''_id'', VOid 255), (''make'', VStr ''Toyota''), (''plate_number'', VStr ''AB-1'')]])]
     = ([(''car'', [[(''_id'', VOid 255), (''make'', VStr ''Toyota''), (''plate_number'', VStr ''AB-1'')]])],
        Inl (HTTPException 400 ''Plate number already exists''))"
proof (intro allI)
  fix lib :: "'f pylib" and rate :: 'f
  let ?c = "[(''_id'', VOid 255), (''make'', VStr ''Toyota''), (''plate_number'', VStr ''AB-1'')] :: 'f doc"
  let ?db = "[(''car'', [?c])] :: 'f database"
  let ?p = "\<lparr>cc_make = ''Fiat'', cc_model = ''Uno'', cc_year = 1800, cc_plate_number = ''AB-1'',
        cc_daily_rate = rate\<rparr>"
  have a: "?c \<in> set (collection ?db ''car'')"
    by (simp add: collection_def)
  have b: "map_of ?c ''plate_number'' = Some (VStr (cc_plate_number ?p))"
    by simp
  show "add_car lib 1 ?p ?db = (?db, Inl (HTTPException 400 ''Plate number already exists''))"
    by (rule add_car_duplicate_plate [OF a b])
qed

section \<open>A car document without the field available\<close>

text \<open>
  Claim C10. A stored car that has no field \<^verbatim>\<open>available\<close> at all counts as available:
  Start passes the availability test and succeeds (given that the driver's new
  identifier is not yet in the rental collection), the new active rental is appended to
  the rental collection, and the car is marked unavailable.
\<close>

theorem start_rental_missing_available:
  assumes "ObjectId (sr_car_id payload) = Inr bs"
    and "bson_oid bs = Some w"
    and "find_one ''_id'' (VOid w) (collection db ''car'') = Some car"
    and "map_of car ''available'' = None"
    and "find_one ''_id'' (VOid oid) (collection db ''rental'') = None"
  shows "\<exists>db'. start_rental lib oid t_start t_upd payload db =
           (db', Inr (serialize_doc lib
              ((''_id'', VOid oid) #
                 bson_doc (RentalSchema t_start (str_oid w) (sr_customer_name payload)))))
         \<and> collection db' ''rental'' = collection db ''rental'' @
              [(''_id'', VOid oid) #
                 bson_doc (RentalSchema t_start (str_oid w) (sr_customer_name payload))]
         \<and> car_unavailable db' w"
proof -
  let ?new = "(''_id'', VOid oid) #
                 bson_doc (RentalSchema t_start (str_oid w) (sr_customer_name payload))"
  have look: "find_by_id bs (collection db ''car'') = Some car"
    using assms(2,3) by (simp add: find_by_id_def)
  have id: "map_of car ''_id'' = Some (VOid w)"
    using assms(3) by (auto dest: find_one_Some)
  have nonempty: "doc_bool (Some car)"
    using assms(3) by (rule find_one_nonempty)
  have avail: "py_bool lib (dict_get_default car ''available'' (VBool True))"
    using assms(4) by (simp add: dict_get_default_def)
  let ?db1 = "set_collection ''rental'' (collection db ''rental'' @ [?new]) db"
  have cd: "create_document oid ''rental''
              (RentalSchema t_start (str_oid w) (sr_customer_name payload)) db
            = (?db1, Inr (str_oid oid))"
    using assms(5) by (simp add: create_document_def insert_one_def)
  let ?db2 = "set_car_available False t_upd (VOid w) ?db1"
  have found: "find_one ''_id'' (VOid oid) (collection ?db2 ''rental'') = Some ?new"
    using assms(5)
    by (simp add: set_car_available_def collection_set_collection find_one_append)
       (simp add: find_one_def field_is_def)
  have run: "start_rental lib oid t_start t_upd payload db = (?db2, Inr (serialize_doc lib ?new))"
    using assms(1) look ObjectId_Inr_valid [OF assms(1)] nonempty avail id cd found
    by (simp add: start_rental_def Let_def ObjectId_str_oid find_by_id_oid_bytes)
  have car': "car_unavailable ?db2 w"
    using assms(3)
    by (simp add: car_unavailable_def set_car_available_def collection_set_collection
          find_one_update_one_other)
       (simp add: set_fields_def update_conv')
  show ?thesis
    using run car' by (simp add: set_car_available_def collection_set_collection)
qed

theorem start_rental_missing_available_witness:
  "\<forall>lib :: 'f pylib. \<exists>db'.
     start_rental lib 1 5 6
       \<lparr>sr_car_id = ''0000000000000000000000ff'', sr_customer_name = ''Ann''\<rparr>
       [(''car'', [[(''_id'', VOid 255), (''plate_number'', VStr ''AB-1'')]])]
     = (db', Inr (serialize_doc lib
          ((''_id'', VOid 1) # bson_doc (RentalSchema 5 (str_oid 255) ''Ann''))))
     \<and> collection db' ''rental'' =
          [(''_id'', VOid 1) # bson_doc (RentalSchema 5 (str_oid 255) ''Ann'')]
     \<and> car_unavailable db' 255"
proof
  fix lib :: "'f pylib"
  let ?p = "\<lparr>sr_car_id = ''0000000000000000000000ff'', sr_customer_name = ''Ann''\<rparr>"
  let ?c = "[(''_id'', VOid 255), (''plate_number'', VStr ''AB-1'')] :: 'f doc"
  let ?db = "[(''car'', [?c])] :: 'f database"
  let ?bs = "[0, 0, 0, 0, 0, 0, 0, 0, 0, 0, 0, 255] :: 8 word list"
  have a: "ObjectId (sr_car_id ?p) = Inr ?bs"
    by (simp add: ObjectId_def hex_digit_def is_space_def)
  have a': "bson_oid ?bs = Some 255"
    by (simp add: bson_oid_def)
  have b: "find_one ''_id'' (VOid 255) (collection ?db ''car'') = Some ?c"
    by (simp add: find_one_def collection_def field_is_def)
  have c: "map_of ?c ''available'' = None"
    by simp
  have d: "find_one ''_id'' (VOid 1) (collection ?db ''rental'') = None"
    by (simp add: find_one_def collection_def)
  have e: "collection ?db ''rental'' = []"
    by (simp add: collection_def)
  show "\<exists>db'. start_rental lib 1 5 6 ?p ?db
          = (db', Inr (serialize_doc lib
               ((''_id'', VOid 1) # bson_doc (RentalSchema 5 (str_oid 255) ''Ann''))))
        \<and> collection db' ''rental'' =
             [(''_id'', VOid 1) # bson_doc (RentalSchema 5 (str_oid 255) ''Ann'')]
        \<and> car_unavailable db' 255"
    using start_rental_missing_available [OF a a' b c d, of lib 5 6] e by simp
qed

section \<open>Invoice computation: billed days and rounding\<close>

text \<open>What a successful call of \<^verbatim>\<open>compute_invoice\<close> has read and what it returns.\<close>

lemma compute_invoice_Inr:
  assumes "compute_invoice lib now car rental tax_rate = Inr invoice"
  obtains duration daily_rate rid cid name where
    "py_duration (if py_bool lib (dict_get rental ''end_date'') then dict_get rental ''end_date''
                  else VDate (now_utc now)) (dict_get rental ''start_date'') = Inr duration"
    "py_float lib (dict_get_default car ''daily_rate'' (VFloat (fzero lib))) = Inr daily_rate"
    "int_to_float lib (billed_days duration) = Inr (float_of_int lib (billed_days duration))"
    "map_of rental ''_id'' = Some rid" "map_of car ''_id'' = Some cid"
    "map_of rental ''customer_name'' = Some (VStr name)"
    "invoice =
       [(''rental_id'', VStr (py_str lib rid)),
        (''car_id'', VStr (py_str lib cid)),
        (''customer_name'', VStr name),
        (''start_date'', dict_get rental ''start_date''),
        (''end_date'', (if py_bool lib (dict_get rental ''end_date'') then dict_get rental ''end_date''
                  else VDate (now_utc now))),
        (''days'', VInt (billed_days duration)),
        (''daily_rate'', VFloat daily_rate),
        (''subtotal'', VFloat (fround lib (fmul lib (float_of_int lib (billed_days duration)) daily_rate) 2)),
        (''tax_rate'', VFloat (or_zero lib tax_rate)),
        (''tax_amount'', VFloat (fround lib (fmul lib
            (fround lib (fmul lib (float_of_int lib (billed_days duration)) daily_rate) 2)
            (or_zero lib tax_rate)) 2)),
        (''total'', VFloat (fround lib (fadd lib
            (fround lib (fmul lib (float_of_int lib (billed_days duration)) daily_rate) 2)
            (fround lib (fmul lib
               (fround lib (fmul lib (float_of_int lib (billed_days duration)) daily_rate) 2)
               (or_zero lib tax_rate)) 2)) 2)),
        (''items'', VNone)]"
  using assms unfolding compute_invoice_def Let_def
  by (auto simp: int_to_float_def split: sum.splits option.splits pyval.splits if_splits)

text \<open>
  The billed days are \<open>max 1 (days + (1 if seconds > 0 else 0))\<close> of the normalised
  difference of the two instants. In microseconds: a leftover of at least one whole
  second beyond the whole days adds a day, and the result is never below 1.
\<close>

lemma billed_days_timedelta:
  "billed_days (timedelta_of_micros us) =
     max 1 (us div 86400000000 + (if 1000000 \<le> us mod 86400000000 then 1 else 0))"
  by (simp add: billed_days_def timedelta_of_micros_def zdiv_eq_0_iff not_less)

lemma compute_invoice_days:
  assumes "compute_invoice lib now car rental tax_rate = Inr invoice"
    and "map_of rental ''start_date'' = Some (VDate a)"
    and "map_of rental ''end_date'' = Some (VDate b)"
  shows "map_of invoice ''days'' = Some (VInt (billed_days (timedelta_of_micros (micros b - micros a))))"
  using assms(1)
  by (elim compute_invoice_Inr)
     (use assms(2,3) in \<open>auto simp: dict_get_def datetime_sub_def split: if_splits\<close>)

text \<open>
  The examples of the specification: one second is billed one day, exactly two days
  are billed two days, and a rental of no duration is billed one day.
\<close>

lemma billed_days_one_second: "billed_days (timedelta_of_micros 1000000) = 1"
  by (simp add: billed_days_timedelta)

lemma billed_days_two_days: "billed_days (timedelta_of_micros (2 * 86400000000)) = 2"
  by (simp add: billed_days_timedelta)

lemma billed_days_zero: "billed_days (timedelta_of_micros 0) = 1"
  by (simp add: billed_days_timedelta)

lemma billed_days_rounds_up_whole_seconds:
  "0 \<le> us \<Longrightarrow> 1000000 \<le> us mod 86400000000 \<Longrightarrow>
   billed_days (timedelta_of_micros us) = us div 86400000000 + 1"
  by (simp add: billed_days_timedelta pos_imp_zdiv_nonneg_iff)

text \<open>
  Claim C1 says that any partial day is rounded up to a full day. The handler tests
  \<^verbatim>\<open>duration.seconds > 0\<close> and never reads \<^verbatim>\<open>duration.microseconds\<close>, so a leftover
  shorter than one second is dropped: a rental from 2024-01-01T00:00:00 to
  2024-01-02T00:00:00.5, which lasts longer than one day, is billed 1 day and not 2.
  (The store keeps milliseconds, so such an interval survives the round trip through
  it.) The comment above the computation reads "ceil to next day if any partial day".
\<close>

theorem compute_invoice_subsecond_leftover:
  "\<forall>(lib :: 'f pylib) now. \<exists>invoice.
     compute_invoice lib now
       [(''_id'', VOid 10), (''daily_rate'', VFloat (float_of_int lib 100))]
       [(''_id'', VOid 20), (''customer_name'', VStr ''Ann''),
        (''start_date'', VDate (utcnow 1704067200000000)),
        (''end_date'', VDate (utcnow 1704153600500000))]
       None = Inr invoice
     \<and> map_of invoice ''days'' = Some (VInt 1)
     \<and> (86400000000 :: int) < 1704153600500000 - 1704067200000000"
  by (simp add: compute_invoice_def dict_get_def dict_get_default_def utcnow_def
        datetime_sub_def timedelta_of_micros_def billed_days_def int_to_float_def Let_def)

text \<open>
  Claim C2. In every invoice \<^verbatim>\<open>compute_invoice\<close> returns, with the billed days of the
  rental's duration, the daily rate read from the car and the tax rate supplied (taken
  as \<^verbatim>\<open>0.0\<close> when it is \<^verbatim>\<open>None\<close> or zero, as \<^verbatim>\<open>tax_rate or 0.0\<close> reads it): the
  subtotal is the product of days and rate rounded to 2 places, the tax amount is the
  product of that rounded subtotal and the tax rate rounded to 2 places, and the total
  is the sum of the rounded subtotal and the rounded tax amount, rounded to 2 places.
\<close>

theorem compute_invoice_stagewise_rounding:
  assumes "compute_invoice lib now car rental tax_rate = Inr invoice"
  shows "\<exists>duration daily_rate tax subtotal tax_amount total.
           py_duration (if py_bool lib (dict_get rental ''end_date'')
                        then dict_get rental ''end_date'' else VDate (now_utc now))
             (dict_get rental ''start_date'') = Inr duration
         \<and> py_float lib (dict_get_default car ''daily_rate'' (VFloat (fzero lib))) = Inr daily_rate
         \<and> tax = (case tax_rate of None \<Rightarrow> fzero lib
                   | Some x \<Rightarrow> if f_bool lib x then x else fzero lib)
         \<and> subtotal = fround lib (fmul lib (float_of_int lib (billed_days duration)) daily_rate) 2
         \<and> tax_amount = fround lib (fmul lib subtotal tax) 2
         \<and> total = fround lib (fadd lib subtotal tax_amount) 2
         \<and> map_of invoice ''days'' = Some (VInt (billed_days duration))
         \<and> map_of invoice ''daily_rate'' = Some (VFloat daily_rate)
         \<and> map_of invoice ''subtotal'' = Some (VFloat subtotal)
         \<and> map_of invoice ''tax_rate'' = Some (VFloat tax)
         \<and> map_of invoice ''tax_amount'' = Some (VFloat tax_amount)
         \<and> map_of invoice ''total'' = Some (VFloat total)"
  using assms by (elim compute_invoice_Inr) (simp add: or_zero_def)

theorem compute_invoice_stagewise_rounding_witness:
  "\<forall>(lib :: 'f pylib) now tax rate. \<exists>invoice subtotal tax_amount.
     compute_invoice lib now
       [(''_id'', VOid 10), (''daily_rate'', VFloat rate)]
       [(''_id'', VOid 20), (''customer_name'', VStr ''Ann''),
        (''start_date'', VDate (utcnow 1704067200000000)),
        (''end_date'', VDate (utcnow 1704240000000000))]
       (Some tax) = Inr invoice
     \<and> subtotal = fround lib (fmul lib (float_of_int lib 2) rate) 2
     \<and> tax_amount = fround lib (fmul lib subtotal (if f_bool lib tax then tax else fzero lib)) 2
     \<and> map_of invoice ''days'' = Some (VInt 2)
     \<and> map_of invoice ''subtotal'' = Some (VFloat subtotal)
     \<and> map_of invoice ''tax_rate'' = Some (VFloat (if f_bool lib tax then tax else fzero lib))
     \<and> map_of invoice ''tax_amount'' = Some (VFloat tax_amount)
     \<and> map_of invoice ''total'' = Some (VFloat (fround lib (fadd lib subtotal tax_amount) 2))"
proof (intro allI)
  fix lib :: "'f pylib" and now :: int and tax rate :: 'f
  let ?car = "[(''_id'', VOid 10), (''daily_rate'', VFloat rate)]"
  let ?rental = "[(''_id'', VOid 20), (''customer_name'', VStr ''Ann''),
        (''start_date'', VDate (utcnow 1704067200000000)),
        (''end_date'', VDate (utcnow 1704240000000000))] :: 'f doc"
  have "\<exists>invoice. compute_invoice lib now ?car ?rental (Some tax) = Inr invoice"
    by (simp add: compute_invoice_def dict_get_def dict_get_default_def utcnow_def
          datetime_sub_def timedelta_of_micros_def billed_days_def int_to_float_def Let_def)
  then obtain invoice where run: "compute_invoice lib now ?car ?rental (Some tax) = Inr invoice"
    by blast
  have d: "billed_days (timedelta_of_micros (1704240000000000 - 1704067200000000)) = 2"
    by (simp add: billed_days_timedelta)
  show "\<exists>invoice subtotal tax_amount.
     compute_invoice lib now ?car ?rental (Some tax) = Inr invoice
     \<and> subtotal = fround lib (fmul lib (float_of_int lib 2) rate) 2
     \<and> tax_amount = fround lib (fmul lib subtotal (if f_bool lib tax then tax else fzero lib)) 2
     \<and> map_of invoice ''days'' = Some (VInt 2)
     \<and> map_of invoice ''subtotal'' = Some (VFloat subtotal)
     \<and> map_of invoice ''tax_rate'' = Some (VFloat (if f_bool lib tax then tax else fzero lib))
     \<and> map_of invoice ''tax_amount'' = Some (VFloat tax_amount)
     \<and> map_of invoice ''total'' = Some (VFloat (fround lib (fadd lib subtotal tax_amount) 2))"
    using compute_invoice_stagewise_rounding [OF run] run d
    by (auto simp: dict_get_def dict_get_default_def utcnow_def datetime_sub_def)
qed

section \<open>Returning a rental: what a successful call has done\<close>

lemma collection_set_car_available:
  "collection (set_car_available b t cid db) n =
     (if n = ''car''
      then update_one ''_id'' cid [(''available'', VBool b), (''updated_at'', VDate (now_utc t))]
             (collection db ''car'')
      else collection db n)"
  by (simp add: set_car_available_def collection_set_collection)

lemma collection_set_rental_returned:
  "collection (set_rental_returned t_end t_upd rid db) n =
     (if n = ''rental''
      then update_one ''_id'' rid
             [(''end_date'', VDate (now_utc t_end)), (''status'', VStr ''returned''),
              (''updated_at'', VDate (now_utc t_upd))]
             (collection db ''rental'')
      else collection db n)"
  by (simp add: set_rental_returned_def collection_set_collection)

lemma create_document_cases:
  "create_document oid name data db = (db1, r) \<Longrightarrow>
     (db1 = db \<and> r = Inl DuplicateKeyError \<and> find_one ''_id'' (VOid oid) (collection db name) \<noteq> None)
   \<or> (db1 = set_collection name (collection db name @ [(''_id'', VOid oid) # bson_doc data]) db
        \<and> r = Inr (str_oid oid) \<and> find_one ''_id'' (VOid oid) (collection db name) = None)"
  by (auto simp: create_document_def insert_one_def split: if_splits)

lemma return_rental_Inr:
  assumes "return_rental lib oid gen t_end t_upd_rental t_upd_car t_now rental_id payload db
             = (db', Inr out)"
  obtains bs w rental cref cs c car rental2 invoice_data where
    "ObjectId rental_id = Inr bs"
    "bson_oid bs = Some w"
    "find_one ''_id'' (VOid w) (collection db ''rental'') = Some rental"
    "dict_get rental ''status'' \<noteq> VStr ''returned''"
    "map_of rental ''car_id'' = Some cref"
    "ObjectId_of gen cref = Inr cs"
    "bson_oid cs = Some c"
    "find_one ''_id'' (VOid c) (collection db ''car'') = Some car"
    "find_one ''_id'' (VOid w)
       (collection (set_car_available True t_upd_car (VOid c)
                      (set_rental_returned t_end t_upd_rental (VOid w) db)) ''rental'')
       = Some rental2"
    "compute_invoice lib t_now car rental2 (Some (or_zero lib (rr_tax_rate payload)))
       = Inr invoice_data"
    "find_one ''_id'' (VOid oid)
       (collection (set_car_available True t_upd_car (VOid c)
                      (set_rental_returned t_end t_upd_rental (VOid w) db)) ''invoice'') = None"
    "db' = set_collection ''invoice''
             (collection (set_car_available True t_upd_car (VOid c)
                      (set_rental_returned t_end t_upd_rental (VOid w) db)) ''invoice''
                @ [(''_id'', VOid oid) # bson_doc invoice_data])
             (set_car_available True t_upd_car (VOid c)
                      (set_rental_returned t_end t_upd_rental (VOid w) db))"
    "out = (serialize_doc lib rental2, serialize_doc lib ((''_id'', VOid oid) # bson_doc invoice_data))"
proof -
  from assms obtain bs where bs: "ObjectId rental_id = Inr bs"
    by (cases "ObjectId rental_id") (auto simp: return_rental_def split: if_splits)
  then have valid: "is_valid rental_id"
    by (rule ObjectId_Inr_valid)
  from assms valid bs obtain rental where
    look: "find_by_id bs (collection db ''rental'') = Some rental"
    by (cases "find_by_id bs (collection db ''rental'')") (auto simp: return_rental_def)
  from find_by_id_Some [OF look] obtain w where w: "bson_oid bs = Some w"
    and rental: "find_one ''_id'' (VOid w) (collection db ''rental'') = Some rental"
    by blast
  have rid: "map_of rental ''_id'' = Some (VOid w)"
    using rental by (auto dest: find_one_Some)
  from assms valid bs look have status: "dict_get rental ''status'' \<noteq> VStr ''returned''"
    by (auto simp: return_rental_def split: if_splits)
  from assms valid bs look status obtain cref where cref: "map_of rental ''car_id'' = Some cref"
    by (cases "map_of rental ''car_id''") (auto simp: return_rental_def split: if_splits)
  from assms valid bs look status cref obtain cs where cs: "ObjectId_of gen cref = Inr cs"
    by (cases "ObjectId_of gen cref") (auto simp: return_rental_def split: if_splits)
  from assms valid bs look status cref cs obtain car where
    lookc: "find_by_id cs (collection db ''car'') = Some car"
    by (cases "find_by_id cs (collection db ''car'')")
       (auto simp: return_rental_def split: if_splits)
  from find_by_id_Some [OF lookc] obtain c where c: "bson_oid cs = Some c"
    and car: "find_one ''_id'' (VOid c) (collection db ''car'') = Some car"
    by blast
  have cid: "map_of car ''_id'' = Some (VOid c)"
    using car by (auto dest: find_one_Some)
  let ?db2 = "set_car_available True t_upd_car (VOid c)
                (set_rental_returned t_end t_upd_rental (VOid w) db)"
  note facts = valid bs look status cref cs lookc rid cid find_one_nonempty [OF rental]
    find_one_nonempty [OF car]
  from assms facts obtain rental2 where
    rental2: "find_one ''_id'' (VOid w) (collection ?db2 ''rental'') = Some rental2"
    by (cases "find_one ''_id'' (VOid w) (collection ?db2 ''rental'')")
       (auto simp: return_rental_def Let_def)
  from assms facts rental2 obtain invoice_data where
    inv: "compute_invoice lib t_now car rental2 (Some (or_zero lib (rr_tax_rate payload)))
            = Inr invoice_data"
    by (cases "compute_invoice lib t_now car rental2 (Some (or_zero lib (rr_tax_rate payload)))")
       (auto simp: return_rental_def Let_def)
  obtain db3 r where cd: "create_document oid ''invoice'' invoice_data ?db2 = (db3, r)"
    by (cases "create_document oid ''invoice'' invoice_data ?db2") auto
  from assms facts rental2 inv cd have r: "r = Inr (str_oid oid)"
    using create_document_cases [OF cd]
    by (auto simp: return_rental_def Let_def)
  with create_document_cases [OF cd] have
    fresh: "find_one ''_id'' (VOid oid) (collection ?db2 ''invoice'') = None"
    and db3: "db3 = set_collection ''invoice''
                (collection ?db2 ''invoice'' @ [(''_id'', VOid oid) # bson_doc invoice_data]) ?db2"
    by auto
  have found: "find_one ''_id'' (VOid oid) (collection db3 ''invoice'')
                 = Some ((''_id'', VOid oid) # bson_doc invoice_data)"
    using fresh unfolding db3
    by (simp add: collection_set_collection find_one_append)
       (simp add: find_one_def field_is_def)
  from assms facts rental2 inv cd r found have
    "db' = db3" "out = (serialize_doc lib rental2,
                        serialize_doc lib ((''_id'', VOid oid) # bson_doc invoice_data))"
    by (auto simp: return_rental_def Let_def ObjectId_str_oid find_by_id_oid_bytes)
  with that [OF bs w rental status cref cs c car rental2 inv fresh] db3 show thesis
    by blast
qed


lemma map_of_bson_doc: "map_of (bson_doc d) k = map_option bson_value (map_of d k)"
  by (simp add: bson_doc_def map_of_map)

lemma map_of_serialize_doc:
  "map_of (serialize_doc lib d) k = map_option (serialize_value lib) (map_of d k)"
  by (simp add: serialize_doc_def map_of_map)

lemma bson_value_idem: "bson_value (bson_value v) = bson_value v"
  by (cases v) simp_all

lemma returned_rental_fields:
  "map_of (set_fields [(''end_date'', a), (''status'', b), (''updated_at'', c)] d) ''end_date''
     = Some (bson_value a)"
  "map_of (set_fields [(''end_date'', a), (''status'', b), (''updated_at'', c)] d) ''status''
     = Some (bson_value b)"
  by (simp_all add: set_fields_def update_conv')

section \<open>The invoice is computed from the persisted end of the rental\<close>

lemma return_rental_end_dates:
  assumes "return_rental (lib :: 'f pylib) oid gen t_end t_upd_rental t_upd_car t_now rental_id
             payload db = (db', Inr out)"
  shows "\<exists>bs w rental invoice.
           ObjectId rental_id = Inr bs
         \<and> bson_oid bs = Some w
         \<and> find_one ''_id'' (VOid w) (collection db' ''rental'') = Some rental
         \<and> find_one ''_id'' (VOid oid) (collection db' ''invoice'') = Some invoice
         \<and> out = (serialize_doc lib rental, serialize_doc lib invoice)
         \<and> map_of rental ''end_date'' = Some (bson_value (VDate (now_utc t_end)))
         \<and> map_of invoice ''end_date'' = map_of rental ''end_date''"
  using assms
proof (elim return_rental_Inr)
  fix bs w cref cs c and rental car rental2 invoice_data :: "'f doc"
  let ?db2 = "set_car_available True t_upd_car (VOid c)
                (set_rental_returned t_end t_upd_rental (VOid w) db)"
  let ?changes = "[(''end_date'', VDate (now_utc t_end)), (''status'', VStr ''returned''),
                   (''updated_at'', VDate (now_utc t_upd_rental))] :: 'f doc"
  let ?new = "(''_id'', VOid oid) # bson_doc invoice_data"
  assume bs: "ObjectId rental_id = Inr bs"
    and w: "bson_oid bs = Some w"
    and rental: "find_one ''_id'' (VOid w) (collection db ''rental'') = Some rental"
    and rental2: "find_one ''_id'' (VOid w) (collection ?db2 ''rental'') = Some rental2"
    and inv: "compute_invoice lib t_now car rental2 (Some (or_zero lib (rr_tax_rate payload)))
                = Inr invoice_data"
    and fresh: "find_one ''_id'' (VOid oid) (collection ?db2 ''invoice'') = None"
    and db': "db' = set_collection ''invoice'' (collection ?db2 ''invoice'' @ [?new]) ?db2"
    and out: "out = (serialize_doc lib rental2, serialize_doc lib ?new)"
  have r2: "rental2 = set_fields ?changes rental"
    using rental rental2
    by (simp add: collection_set_car_available collection_set_rental_returned
          find_one_update_one_other)
  have end2: "map_of rental2 ''end_date'' = Some (bson_value (VDate (now_utc t_end)))"
    unfolding r2 by (rule returned_rental_fields)
  then have get2: "dict_get rental2 ''end_date'' = bson_value (VDate (now_utc t_end))"
    by (simp add: dict_get_def)
  have "map_of invoice_data ''end_date'' = Some (bson_value (VDate (now_utc t_end)))"
    using inv by (elim compute_invoice_Inr) (simp add: get2)
  then have end_inv: "map_of ?new ''end_date'' = map_of rental2 ''end_date''"
    by (simp add: map_of_bson_doc end2 del: bson_value.simps)
       (simp only: bson_value_idem)
  have found_r: "find_one ''_id'' (VOid w) (collection db' ''rental'') = Some rental2"
    using rental2 unfolding db' by (simp add: collection_set_collection)
  have found_i: "find_one ''_id'' (VOid oid) (collection db' ''invoice'') = Some ?new"
    using fresh unfolding db'
    by (simp add: collection_set_collection find_one_append)
       (simp add: find_one_def field_is_def)
  show ?thesis
    using bs w found_r found_i out end2 end_inv by blast
qed


lemma compute_invoice_now_irrelevant:
  "py_bool lib (dict_get rental ''end_date'') \<Longrightarrow>
   compute_invoice lib now car rental tax = compute_invoice lib now' car rental tax"
  by (simp add: compute_invoice_def Let_def)

lemma return_rental_now_irrelevant:
  assumes "return_rental (lib :: 'f pylib) oid gen t_end t_upd_rental t_upd_car t_now rental_id
             payload db = (db', Inr out)"
  shows "return_rental lib oid gen t_end t_upd_rental t_upd_car t rental_id payload db
           = (db', Inr out)"
  using assms
proof (elim return_rental_Inr)
  fix bs w cref cs c and rental car rental2 invoice_data :: "'f doc"
  let ?db2 = "set_car_available True t_upd_car (VOid c)
                (set_rental_returned t_end t_upd_rental (VOid w) db)"
  let ?changes = "[(''end_date'', VDate (now_utc t_end)), (''status'', VStr ''returned''),
                   (''updated_at'', VDate (now_utc t_upd_rental))] :: 'f doc"
  let ?new = "(''_id'', VOid oid) # bson_doc invoice_data"
  assume bs: "ObjectId rental_id = Inr bs"
    and w: "bson_oid bs = Some w"
    and rental: "find_one ''_id'' (VOid w) (collection db ''rental'') = Some rental"
    and status: "dict_get rental ''status'' \<noteq> VStr ''returned''"
    and cref: "map_of rental ''car_id'' = Some cref"
    and cs: "ObjectId_of gen cref = Inr cs"
    and c: "bson_oid cs = Some c"
    and car: "find_one ''_id'' (VOid c) (collection db ''car'') = Some car"
    and rental2: "find_one ''_id'' (VOid w) (collection ?db2 ''rental'') = Some rental2"
    and inv: "compute_invoice lib t_now car rental2 (Some (or_zero lib (rr_tax_rate payload)))
                = Inr invoice_data"
    and fresh: "find_one ''_id'' (VOid oid) (collection ?db2 ''invoice'') = None"
    and db': "db' = set_collection ''invoice'' (collection ?db2 ''invoice'' @ [?new]) ?db2"
    and out: "out = (serialize_doc lib rental2, serialize_doc lib ?new)"
  have r2: "rental2 = set_fields ?changes rental"
    using rental rental2
    by (simp add: collection_set_car_available collection_set_rental_returned
          find_one_update_one_other)
  have "map_of rental2 ''end_date'' = Some (bson_value (VDate (now_utc t_end)))"
    unfolding r2 by (rule returned_rental_fields)
  then have "py_bool lib (dict_get rental2 ''end_date'')"
    by (simp add: dict_get_def)
  then have inv': "compute_invoice lib t car rental2 (Some (or_zero lib (rr_tax_rate payload)))
                = Inr invoice_data"
    using inv compute_invoice_now_irrelevant [of lib rental2 t car _ t_now] by simp
  have rid: "map_of rental ''_id'' = Some (VOid w)"
    using rental by (auto dest: find_one_Some)
  have cid: "map_of car ''_id'' = Some (VOid c)"
    using car by (auto dest: find_one_Some)
  have found: "find_one ''_id'' (VOid oid) (collection db' ''invoice'') = Some ?new"
    using fresh unfolding db'
    by (simp add: collection_set_collection find_one_append)
       (simp add: find_one_def field_is_def)
  show ?thesis
    using bs w ObjectId_Inr_valid [OF bs] rental status cref cs c car rid cid rental2 inv' fresh
      found [unfolded db'] find_one_nonempty [OF rental] find_one_nonempty [OF car]
    by (simp add: return_rental_def Let_def create_document_def insert_one_def ObjectId_str_oid
          find_by_id_def bson_oid_bytes db' out)
qed

text \<open>
  Claim C5. In every successful Return the invoice is computed from the rental as it is
  read back after the update that sets \<^verbatim>\<open>end_date\<close>: the rental stored afterwards has
  the end instant of the handler (as the store keeps it), and the stored invoice has
  the same \<^verbatim>\<open>end_date\<close>. The fallback of \<^verbatim>\<open>compute_invoice\<close> to the current time is
  never taken: whatever the clock would read there (\<open>t_now\<close>), the handler leaves the same
  store and gives the same answer.
\<close>

theorem return_rental_invoice_end_date:
  assumes "return_rental (lib :: 'f pylib) oid gen t_end t_upd_rental t_upd_car t_now rental_id
             payload db = (db', Inr out)"
  shows "(\<exists>bs w rental invoice.
           ObjectId rental_id = Inr bs
         \<and> bson_oid bs = Some w
         \<and> find_one ''_id'' (VOid w) (collection db' ''rental'') = Some rental
         \<and> find_one ''_id'' (VOid oid) (collection db' ''invoice'') = Some invoice
         \<and> out = (serialize_doc lib rental, serialize_doc lib invoice)
         \<and> map_of rental ''end_date'' = Some (bson_value (VDate (now_utc t_end)))
         \<and> map_of invoice ''end_date'' = map_of rental ''end_date'')
       \<and> (\<forall>t. return_rental lib oid gen t_end t_upd_rental t_upd_car t rental_id payload db
                = (db', Inr out))"
  using return_rental_end_dates [OF assms] return_rental_now_irrelevant [OF assms]
  by blast

theorem return_rental_invoice_end_date_witness:
  "\<forall>lib :: 'f pylib. \<exists>db' out rental invoice.
     return_rental lib 7 8 1704153600500123 1704153600500200 1704153600500300 1704153600500400
       ''0000000000000000000000ff'' \<lparr>rr_tax_rate = None\<rparr>
       [(''car'', [[(''_id'', VOid 10), (''daily_rate'', VFloat (float_of_int lib 50)),
                    (''available'', VBool False)]]),
        (''rental'', [[(''_id'', VOid 255), (''car_id'', VStr ''00000000000000000000000a''),
                       (''customer_name'', VStr ''Ann''),
                       (''start_date'', VDate (utcnow 1704067200000000)),
                       (''end_date'', VNone), (''status'', VStr ''active'')]])]
       = (db', Inr out)
     \<and> find_one ''_id'' (VOid 255) (collection db' ''rental'') = Some rental
     \<and> find_one ''_id'' (VOid 7) (collection db' ''invoice'') = Some invoice
     \<and> map_of rental ''end_date'' = Some (VDate (utcnow 1704153600500000))
     \<and> map_of invoice ''end_date'' = Some (VDate (utcnow 1704153600500000))"
proof
  fix lib :: "'f pylib"
  let ?db = "[(''car'', [[(''_id'', VOid 10), (''daily_rate'', VFloat (float_of_int lib 50)),
                    (''available'', VBool False)]]),
        (''rental'', [[(''_id'', VOid 255), (''car_id'', VStr ''00000000000000000000000a''),
                       (''customer_name'', VStr ''Ann''),
                       (''start_date'', VDate (utcnow 1704067200000000)),
                       (''end_date'', VNone), (''status'', VStr ''active'')]])] :: 'f database"
  let ?run = "return_rental lib 7 8 1704153600500123 1704153600500200 1704153600500300
                1704153600500400 ''0000000000000000000000ff'' \<lparr>rr_tax_rate = None\<rparr> ?db"
  have a: "ObjectId ''0000000000000000000000ff'' = Inr [0, 0, 0, 0, 0, 0, 0, 0, 0, 0, 0, 255]"
    by (simp add: ObjectId_def hex_digit_def is_space_def)
  have a': "bson_oid [0, 0, 0, 0, 0, 0, 0, 0, 0, 0, 0, 255] = Some 255"
    by (simp add: bson_oid_def)
  have b: "ObjectId ''00000000000000000000000a'' = Inr [0, 0, 0, 0, 0, 0, 0, 0, 0, 0, 0, 10]"
    by (simp add: ObjectId_def hex_digit_def is_space_def)
  have b': "bson_oid [0, 0, 0, 0, 0, 0, 0, 0, 0, 0, 0, 10] = Some 10"
    by (simp add: bson_oid_def)
  have v: "is_valid ''0000000000000000000000ff''"
    by (rule ObjectId_Inr_valid [OF a])
  have "\<exists>db' out. ?run = (db', Inr out)"
    by (simp add: return_rental_def a a' b b' v find_by_id_def bson_oid_bytes find_one_def
          collection_def field_is_def doc_bool_def dict_get_def dict_get_default_def
          set_rental_returned_def set_car_available_def
          set_collection_def set_fields_def compute_invoice_def utcnow_def now_utc_def
          datetime_sub_def Let_def create_document_def insert_one_def ObjectId_str_oid
          bson_doc_def int_to_float_def timedelta_of_micros_def billed_days_def)
  then obtain db' out where run: "?run = (db', Inr out)"
    by blast
  have t: "bson_value (VDate (now_utc 1704153600500123)) = (VDate (utcnow 1704153600500000) :: 'f pyval)"
    by (simp add: now_utc_def utcnow_def)
  show "\<exists>db' out rental invoice. ?run = (db', Inr out)
     \<and> find_one ''_id'' (VOid 255) (collection db' ''rental'') = Some rental
     \<and> find_one ''_id'' (VOid 7) (collection db' ''invoice'') = Some invoice
     \<and> map_of rental ''end_date'' = Some (VDate (utcnow 1704153600500000))
     \<and> map_of invoice ''end_date'' = Some (VDate (utcnow 1704153600500000))"
    using return_rental_invoice_end_date [OF run] run a a' t by auto
qed

section \<open>One active rental per car\<close>

lemma update_one_no_match: "find_one k v ds = None \<Longrightarrow> update_one k v ch ds = ds"
  unfolding find_one_def by (induction ds) (auto split: if_splits)

lemma set_update_one:
  "find_one k v ds = Some d \<Longrightarrow> set (update_one k v ch ds) \<subseteq> insert (set_fields ch d) (set ds)"
  unfolding find_one_def by (induction ds) (auto split: if_splits)

lemma find_holds: "List.find P xs = Some x \<Longrightarrow> P x"
  by (auto simp: find_Some_iff)

lemma filter_update_one:
  "find_one k v ds = Some d \<Longrightarrow> \<not> P (set_fields ch d) \<Longrightarrow>
   filter P (update_one k v ch ds) = (if P d then remove1 d (filter P ds) else filter P ds)"
  unfolding find_one_def by (induction ds) (auto split: if_splits dest: find_holds)

lemma car_unavailable_cong:
  "collection db' ''car'' = collection db ''car'' \<Longrightarrow> car_unavailable db' w = car_unavailable db w"
  by (simp add: car_unavailable_def)

lemma rental_inv_cong:
  assumes "collection db' ''car'' = collection db ''car''"
    and "collection db' ''rental'' = collection db ''rental''"
  shows "rental_inv db' = rental_inv db"
proof -
  have "holds_car db' = holds_car db"
    using assms(1) by (auto simp: fun_eq_iff holds_car_def car_unavailable_def split: option.splits)
  then show ?thesis
    using assms(2) by (simp add: rental_inv_def active_rentals_def)
qed

lemma rental_inv_initial: "initial db \<Longrightarrow> rental_inv db"
  by (simp add: initial_def rental_inv_def active_rentals_def find_all_def)

lemma car_unavailable_append:
  "car_unavailable db w \<Longrightarrow> collection db' ''car'' = collection db ''car'' @ cs \<Longrightarrow>
   car_unavailable db' w"
  by (auto simp: car_unavailable_def find_one_append split: option.splits)

lemma rental_inv_new_car:
  assumes "rental_inv db"
  shows "rental_inv (set_collection ''car'' (collection db ''car'' @ cs) db)"
proof -
  let ?db' = "set_collection ''car'' (collection db ''car'' @ cs) db"
  have r: "collection ?db' ''rental'' = collection db ''rental''"
    and c: "collection ?db' ''car'' = collection db ''car'' @ cs"
    by (simp_all add: collection_set_collection)
  have "holds_car ?db' r" if "holds_car db r" for r
    using that car_unavailable_append [OF _ c]
    by (auto simp: holds_car_def split: option.splits)
  then show ?thesis
    using assms by (auto simp: rental_inv_def active_rentals_def r list_all_iff)
qed

lemma rental_inv_add_car: "rental_inv db \<Longrightarrow> rental_inv (fst (add_car lib oid payload db))"
  by (auto simp: add_car_def Let_def create_document_def insert_one_def rental_inv_new_car
           split: sum.splits option.splits if_splits)


lemma car_unavailable_set_unavailable:
  "car_unavailable db w' \<Longrightarrow> car_unavailable (set_car_available False t (VOid w) db) w'"
  by (auto simp: car_unavailable_def collection_set_car_available find_one_update_one_other
        set_fields_def update_conv' split: option.splits)

lemma car_marked_unavailable:
  "find_one ''_id'' (VOid w) (collection db ''car'') = Some car \<Longrightarrow>
   car_unavailable (set_car_available False t (VOid w) db) w"
  by (simp add: car_unavailable_def collection_set_car_available find_one_update_one_other
        set_fields_def update_conv')

lemma car_unavailable_set_available_other:
  "w' \<noteq> w \<Longrightarrow>
   car_unavailable (set_car_available b t (VOid w) db) w' = car_unavailable db w'"
  by (simp add: car_unavailable_def collection_set_car_available find_one_update_one_other)

lemma start_rental_store:
  "fst (start_rental lib oid t_start t_upd payload db) = db
   \<or> (\<exists>bs w car. ObjectId (sr_car_id payload) = Inr bs
        \<and> bson_oid bs = Some w
        \<and> find_one ''_id'' (VOid w) (collection db ''car'') = Some car
        \<and> py_bool lib (dict_get_default car ''available'' (VBool True))
        \<and> fst (start_rental lib oid t_start t_upd payload db) =
            set_car_available False t_upd (VOid w)
              (set_collection ''rental''
                 (collection db ''rental'' @
                    [(''_id'', VOid oid) #
                       bson_doc (RentalSchema t_start (str_oid w) (sr_customer_name payload))])
                 db))"
proof (cases "ObjectId (sr_car_id payload)")
  case (Inl e)
  then show ?thesis by (simp add: start_rental_def)
next
  case bs: (Inr bs)
  show ?thesis
  proof (cases "find_by_id bs (collection db ''car'')")
    case None
    with bs show ?thesis by (simp add: start_rental_def)
  next
    case look: (Some car)
    from find_by_id_Some [OF look] obtain w where w: "bson_oid bs = Some w"
      and car: "find_one ''_id'' (VOid w) (collection db ''car'') = Some car"
      by blast
    have id: "map_of car ''_id'' = Some (VOid w)"
      using car by (auto dest: find_one_Some)
    have "fst (start_rental lib oid t_start t_upd payload db) = db
        \<or> (py_bool lib (dict_get_default car ''available'' (VBool True))
            \<and> fst (start_rental lib oid t_start t_upd payload db) =
                set_car_available False t_upd (VOid w)
                  (set_collection ''rental''
                     (collection db ''rental'' @
                        [(''_id'', VOid oid) #
                           bson_doc (RentalSchema t_start (str_oid w) (sr_customer_name payload))])
                     db))"
      using bs look id find_one_nonempty [OF car]
      by (auto simp: start_rental_def Let_def create_document_def insert_one_def
            split: sum.splits option.splits)
    with bs w car show ?thesis
      by blast
  qed
qed

lemma new_rental_fields:
  "map_of ((''_id'', VOid oid) # bson_doc (RentalSchema t s n)) ''status'' = Some (VStr ''active'')"
  "map_of ((''_id'', VOid oid) # bson_doc (RentalSchema t s n)) ''car_id'' = Some (VStr s)"
  "map_of (bson_doc (RentalSchema t s n)) ''status'' = Some (VStr ''active'')"
  "map_of (bson_doc (RentalSchema t s n)) ''car_id'' = Some (VStr s)"
  by (simp_all add: bson_doc_def RentalSchema_def)

lemma rental_inv_start:
  assumes inv: "rental_inv (db :: 'f database)"
  shows "rental_inv (fst (start_rental lib oid t_start t_upd payload db))"
  using start_rental_store [of lib oid t_start t_upd payload db]
proof (elim disjE exE conjE)
  assume "fst (start_rental lib oid t_start t_upd payload db) = db"
  with inv show ?thesis by simp
next
  fix bs w and car :: "'f doc"
  let ?new = "(''_id'', VOid oid) #
                bson_doc (RentalSchema t_start (str_oid w) (sr_customer_name payload)) :: 'f doc"
  let ?db1 = "set_collection ''rental'' (collection db ''rental'' @ [?new]) db"
  let ?db2 = "set_car_available False t_upd (VOid w) ?db1"
  assume car: "find_one ''_id'' (VOid w) (collection db ''car'') = Some car"
    and avail: "py_bool lib (dict_get_default car ''available'' (VBool True))"
    and store: "fst (start_rental lib oid t_start t_upd payload db) = ?db2"
  have rentals: "collection ?db2 ''rental'' = collection db ''rental'' @ [?new]"
    by (simp add: collection_set_car_available collection_set_collection)
  have active: "active_rentals ?db2 = active_rentals db @ [?new]"
    by (simp add: active_rentals_def rentals find_all_def field_is_def new_rental_fields)
  have ref: "car_of_rental ?new = Some w"
    by (simp add: car_of_rental_def new_rental_fields ObjectId_str_oid bson_oid_bytes)
  have not_unavailable: "\<not> car_unavailable db w"
    using car avail by (auto simp: car_unavailable_def dict_get_default_def)
  have old: "holds_car ?db2 r" if "holds_car db r" for r
  proof -
    from that obtain w' where w': "car_of_rental r = Some w'" "car_unavailable db w'"
      by (auto simp: holds_car_def split: option.splits)
    have "car_unavailable ?db1 w'"
      using w'(2) by (simp add: car_unavailable_def collection_set_collection)
    then have "car_unavailable ?db2 w'"
      by (rule car_unavailable_set_unavailable)
    with w'(1) show ?thesis by (simp add: holds_car_def)
  qed
  have "find_one ''_id'' (VOid w) (collection ?db1 ''car'') = Some car"
    using car by (simp add: collection_set_collection)
  then have new: "holds_car ?db2 ?new"
    using ref by (simp add: holds_car_def car_marked_unavailable)
  have no_other: "Some w \<notin> car_of_rental ` set (active_rentals db)"
  proof
    assume "Some w \<in> car_of_rental ` set (active_rentals db)"
    then obtain r where "r \<in> set (active_rentals db)" "car_of_rental r = Some w"
      by auto
    with inv have "car_unavailable db w"
      by (auto simp: rental_inv_def list_all_iff holds_car_def)
    with not_unavailable show False by simp
  qed
  have "rental_inv ?db2"
    using inv old new no_other
    by (auto simp: rental_inv_def rentals active ref list_all_iff new_rental_fields)
  with store show ?thesis by simp
qed


lemma return_rental_store:
  "fst (return_rental lib oid gen t_end t_upd_rental t_upd_car t_now rental_id payload db) = db
   \<or> (\<exists>w rental cref cs c car.
         find_one ''_id'' (VOid w) (collection db ''rental'') = Some rental
       \<and> dict_get rental ''status'' \<noteq> VStr ''returned''
       \<and> map_of rental ''car_id'' = Some cref
       \<and> ObjectId_of gen cref = Inr cs
       \<and> bson_oid cs = Some c
       \<and> find_one ''_id'' (VOid c) (collection db ''car'') = Some car
       \<and> (fst (return_rental lib oid gen t_end t_upd_rental t_upd_car t_now rental_id payload db)
             = set_car_available True t_upd_car (VOid c)
                 (set_rental_returned t_end t_upd_rental (VOid w) db)
          \<or> (\<exists>data. find_one ''_id'' (VOid oid) (collection db ''invoice'') = None
               \<and> fst (return_rental lib oid gen t_end t_upd_rental t_upd_car t_now rental_id
                          payload db)
                 = set_collection ''invoice''
                     (collection db ''invoice'' @ [(''_id'', VOid oid) # bson_doc data])
                     (set_car_available True t_upd_car (VOid c)
                        (set_rental_returned t_end t_upd_rental (VOid w) db)))))"
proof (cases "ObjectId rental_id")
  case (Inl e)
  then show ?thesis by (simp add: return_rental_def)
next
  case bs: (Inr bs)
  show ?thesis
  proof (cases "find_by_id bs (collection db ''rental'')")
    case None
    with bs show ?thesis by (simp add: return_rental_def)
  next
    case look: (Some rental)
    from find_by_id_Some [OF look] obtain w where
      rental: "find_one ''_id'' (VOid w) (collection db ''rental'') = Some rental"
      by blast
    have rid: "map_of rental ''_id'' = Some (VOid w)"
      using rental by (auto dest: find_one_Some)
    show ?thesis
    proof (cases "dict_get rental ''status'' = VStr ''returned''")
      case True
      with bs look show ?thesis by (simp add: return_rental_def)
    next
      case status: False
      show ?thesis
      proof (cases "map_of rental ''car_id''")
        case None
        with bs look status show ?thesis by (simp add: return_rental_def)
      next
        case cref: (Some cref)
        show ?thesis
        proof (cases "ObjectId_of gen cref")
          case (Inl e)
          with bs look status cref show ?thesis by (simp add: return_rental_def)
        next
          case cs: (Inr cs)
          show ?thesis
          proof (cases "find_by_id cs (collection db ''car'')")
            case None
            with bs look status cref cs show ?thesis by (simp add: return_rental_def)
          next
            case lookc: (Some car)
            from find_by_id_Some [OF lookc] obtain c where c: "bson_oid cs = Some c"
              and car: "find_one ''_id'' (VOid c) (collection db ''car'') = Some car"
              by blast
            have cid: "map_of car ''_id'' = Some (VOid c)"
              using car by (auto dest: find_one_Some)
            have "fst (return_rental lib oid gen t_end t_upd_rental t_upd_car t_now rental_id
                        payload db)
                    = set_car_available True t_upd_car (VOid c)
                        (set_rental_returned t_end t_upd_rental (VOid w) db)
                \<or> (\<exists>data. find_one ''_id'' (VOid oid) (collection db ''invoice'') = None
                    \<and> fst (return_rental lib oid gen t_end t_upd_rental t_upd_car t_now
                               rental_id payload db)
                      = set_collection ''invoice''
                          (collection db ''invoice'' @ [(''_id'', VOid oid) # bson_doc data])
                          (set_car_available True t_upd_car (VOid c)
                             (set_rental_returned t_end t_upd_rental (VOid w) db)))"
              using bs ObjectId_Inr_valid [OF bs] look status cref cs lookc rid cid
                find_one_nonempty [OF rental] find_one_nonempty [OF car]
              by (auto simp: return_rental_def Let_def create_document_def insert_one_def
                    collection_set_car_available collection_set_rental_returned
                    split: sum.splits option.splits)
            with rental status cref cs c car show ?thesis
              by blast
          qed
        qed
      qed
    qed
  qed
qed

lemma car_of_rental_Some:
  "car_of_rental r = Some c \<Longrightarrow>
   \<exists>s bs. map_of r ''car_id'' = Some (VStr s) \<and> ObjectId s = Inr bs \<and> bson_oid bs = Some c"
  by (auto simp: car_of_rental_def split: option.splits pyval.splits sum.splits)

lemma rental_inv_returned:
  assumes inv: "rental_inv (db :: 'f database)"
    and rental: "find_one ''_id'' (VOid w) (collection db ''rental'') = Some rental"
    and status: "dict_get rental ''status'' \<noteq> VStr ''returned''"
    and cref: "map_of rental ''car_id'' = Some cref"
    and cs: "ObjectId_of gen cref = Inr cs"
    and c: "bson_oid cs = Some c"
  shows "rental_inv (set_car_available True t_upd_car (VOid c)
                       (set_rental_returned t_end t_upd_rental (VOid w) db))"
proof -
  let ?ch = "[(''end_date'', VDate (now_utc t_end)), (''status'', VStr ''returned''),
              (''updated_at'', VDate (now_utc t_upd_rental))] :: 'f doc"
  let ?db1 = "set_rental_returned t_end t_upd_rental (VOid w) db"
  let ?db2 = "set_car_available True t_upd_car (VOid c) ?db1"
  let ?active = "field_is ''status'' (VStr ''active'') :: 'f doc \<Rightarrow> bool"
  have member: "rental \<in> set (collection db ''rental'')"
    using rental by (auto dest: find_one_Some)
  with inv status have is_active: "?active rental"
    by (auto simp: rental_inv_def list_all_iff field_is_def dict_get_def)
  with member have in_active: "rental \<in> set (active_rentals db)"
    by (simp add: active_rentals_def find_all_def)
  with inv have "holds_car db rental"
    by (simp add: rental_inv_def list_all_iff)
  then obtain c0 where c0: "car_of_rental rental = Some c0"
    by (auto simp: holds_car_def split: option.splits)
  with cref cs c have ref: "car_of_rental rental = Some c"
    by (auto dest!: car_of_rental_Some)
  have not_active: "\<not> ?active (set_fields ?ch rental)"
    by (simp add: field_is_def returned_rental_fields)
  have rentals: "collection ?db2 ''rental'' = update_one ''_id'' (VOid w) ?ch (collection db ''rental'')"
    by (simp add: collection_set_car_available collection_set_rental_returned)
  have active: "active_rentals ?db2 = remove1 rental (active_rentals db)"
    using filter_update_one [where P = ?active and ch = ?ch, OF rental not_active] is_active
    by (simp add: active_rentals_def find_all_def rentals)
  have dist: "distinct (map car_of_rental (active_rentals db))"
    using inv by (simp add: rental_inv_def)
  then have dist_active: "distinct (active_rentals db)"
    and inj: "inj_on car_of_rental (set (active_rentals db))"
    by (simp_all add: distinct_map)
  have statuses: "list_all (\<lambda>r. map_of r ''status'' = Some (VStr ''active'')
                   \<or> map_of r ''status'' = Some (VStr ''returned'')) (collection ?db2 ''rental'')"
    using inv set_update_one [OF rental, of ?ch]
    by (auto simp: rental_inv_def list_all_iff rentals returned_rental_fields)
  have dist': "distinct (map car_of_rental (active_rentals ?db2))"
    unfolding active using dist_active inj
    by (auto simp: distinct_map intro: inj_on_subset dest: notin_set_remove1)
  have holds: "holds_car ?db2 r" if r: "r \<in> set (active_rentals ?db2)" for r
  proof -
    from r have r_in: "r \<in> set (active_rentals db)" and r_ne: "r \<noteq> rental"
      using dist_active by (auto simp: active)
    from inv r_in have "holds_car db r"
      by (simp add: rental_inv_def list_all_iff)
    then obtain w' where w': "car_of_rental r = Some w'" "car_unavailable db w'"
      by (auto simp: holds_car_def split: option.splits)
    have "w' \<noteq> c"
      using inj_onD [OF inj _ r_in in_active] r_ne w'(1) ref by auto
    then have "car_unavailable ?db2 w' = car_unavailable ?db1 w'"
      by (rule car_unavailable_set_available_other)
    also have "\<dots> = car_unavailable db w'"
      by (simp add: car_unavailable_def collection_set_rental_returned)
    finally show ?thesis
      using w' by (simp add: holds_car_def)
  qed
  show ?thesis
    using statuses dist' holds by (simp add: rental_inv_def list_all_iff)
qed

lemma rental_inv_invoices: "rental_inv (set_collection ''invoice'' ds db) = rental_inv db"
  by (rule rental_inv_cong) (simp_all add: collection_set_collection)

lemma rental_inv_return:
  assumes "rental_inv db"
  shows "rental_inv (fst (return_rental lib oid gen t_end t_upd_rental t_upd_car t_now
                            rental_id payload db))"
  using return_rental_store [of lib oid gen t_end t_upd_rental t_upd_car t_now rental_id payload db]
    assms
  by (auto simp: rental_inv_invoices intro: rental_inv_returned)

lemma reachable_rental_inv: "reachable lib db \<Longrightarrow> rental_inv db"
  by (induction rule: reachable.induct)
     (simp_all add: rental_inv_initial rental_inv_add_car rental_inv_start rental_inv_return)

lemma start_rental_unavailable:
  "ObjectId (sr_car_id payload) = Inr bs \<Longrightarrow> bson_oid bs = Some w \<Longrightarrow>
   car_unavailable db w \<Longrightarrow>
   start_rental lib oid t_start t_upd payload db =
     (db, Inl (HTTPException 400 ''Car is not available''))"
  by (auto simp: start_rental_def car_unavailable_def dict_get_default_def find_by_id_def
        split: option.splits dest: find_one_nonempty ObjectId_Inr_valid)

text \<open>
  Claim C3. In every reachable store no two active rentals reference the same car, and
  the car every active rental references is stored with \<^verbatim>\<open>available\<close> false; a Start
  against such a car is answered 400 \<^verbatim>\<open>Car is not available\<close> and changes nothing. A
  rental stops being active only when Return marks it returned, so the car stays
  unavailable until then.
\<close>

theorem reachable_one_active_rental_per_car:
  assumes "reachable lib db"
  shows "distinct (map car_of_rental (active_rentals db))
       \<and> list_all (holds_car db) (active_rentals db)
       \<and> (\<forall>oid t_start t_upd payload bs w.
            ObjectId (sr_car_id payload) = Inr bs \<longrightarrow> bson_oid bs = Some w \<longrightarrow>
            car_unavailable db w \<longrightarrow>
            start_rental lib oid t_start t_upd payload db =
              (db, Inl (HTTPException 400 ''Car is not available'')))"
  using reachable_rental_inv [OF assms]
  by (simp add: rental_inv_def start_rental_unavailable)

theorem reachable_one_active_rental_per_car_witness:
  "\<forall>lib :: 'f pylib. \<exists>db.
     db = fst (start_rental lib 1 5 6
                 \<lparr>sr_car_id = ''0000000000000000000000ff'', sr_customer_name = ''Ann''\<rparr>
                 [(''car'', [[(''_id'', VOid 255), (''available'', VBool True)]])])
   \<and> reachable lib db
   \<and> length (active_rentals db) = 1
   \<and> distinct (map car_of_rental (active_rentals db))
   \<and> list_all (holds_car db) (active_rentals db)
   \<and> start_rental lib 2 7 8
        \<lparr>sr_car_id = ''0000000000000000000000ff'', sr_customer_name = ''Bob''\<rparr> db
        = (db, Inl (HTTPException 400 ''Car is not available''))"
proof
  fix lib :: "'f pylib"
  let ?p = "\<lparr>sr_car_id = ''0000000000000000000000ff'', sr_customer_name = ''Ann''\<rparr>"
  let ?q = "\<lparr>sr_car_id = ''0000000000000000000000ff'', sr_customer_name = ''Bob''\<rparr>"
  let ?start = "[(''car'', [[(''_id'', VOid 255), (''available'', VBool True)]])] :: 'f database"
  let ?db = "fst (start_rental lib 1 5 6 ?p ?start)"
  have a: "ObjectId ''0000000000000000000000ff'' = Inr [0, 0, 0, 0, 0, 0, 0, 0, 0, 0, 0, 255]"
    by (simp add: ObjectId_def hex_digit_def is_space_def)
  have a': "bson_oid [0, 0, 0, 0, 0, 0, 0, 0, 0, 0, 0, 255] = Some 255"
    by (simp add: bson_oid_def)
  have v: "is_valid ''0000000000000000000000ff''"
    by (rule ObjectId_Inr_valid [OF a])
  have "reachable lib ?start"
    by (rule reach_initial) (simp add: initial_def collection_def)
  then have r: "reachable lib ?db"
    by (rule reach_start)
  have ev: "?db = [(''car'', [[(''_id'', VOid 255), (''available'', VBool False),
                              (''updated_at'', VDate (utcnow 0))]]),
                   (''rental'', [(''_id'', VOid 1) # bson_doc (RentalSchema 5 (str_oid 255) ''Ann'')])]"
    by (simp add: start_rental_def a a' v find_by_id_def bson_oid_bytes find_one_def
          collection_def field_is_def doc_bool_def dict_get_default_def create_document_def
          insert_one_def set_car_available_def
          set_collection_def set_fields_def Let_def ObjectId_str_oid utcnow_def now_utc_def)
  have n: "length (active_rentals ?db) = 1"
    unfolding ev
    by (simp add: active_rentals_def find_all_def collection_def field_is_def bson_doc_def
          RentalSchema_def)
  have u: "car_unavailable ?db 255"
    unfolding ev by (simp add: car_unavailable_def find_one_def collection_def field_is_def)
  show "\<exists>db. db = ?db \<and> reachable lib db \<and> length (active_rentals db) = 1
       \<and> distinct (map car_of_rental (active_rentals db))
       \<and> list_all (holds_car db) (active_rentals db)
       \<and> start_rental lib 2 7 8 ?q db = (db, Inl (HTTPException 400 ''Car is not available''))"
    using reachable_one_active_rental_per_car [OF r] r n u a a' by simp
qed

section \<open>Listing and fetching by id\<close>

lemma oid_of_Some: "oid_of d = Some w \<longleftrightarrow> map_of d ''_id'' = Some (VOid w)"
  by (auto simp: oid_of_def split: option.splits pyval.splits)

lemma ids_unique_find_one:
  "ids_unique ds \<Longrightarrow> d \<in> set ds \<Longrightarrow>
   \<exists>w. map_of d ''_id'' = Some (VOid w) \<and> find_one ''_id'' (VOid w) ds = Some d"
proof (induction ds)
  case Nil
  then show ?case by simp
next
  case (Cons x xs)
  from Cons.prems(1) obtain v where v: "oid_of x = Some v"
    by (auto simp: ids_unique_def)
  show ?case
  proof (cases "d = x")
    case True
    with v show ?thesis
      by (auto simp: oid_of_Some find_one_def field_is_def)
  next
    case False
    with Cons.prems have "d \<in> set xs" and "ids_unique xs"
      by (auto simp: ids_unique_def)
    with Cons.IH obtain w where w: "map_of d ''_id'' = Some (VOid w)"
      "find_one ''_id'' (VOid w) xs = Some d"
      by blast
    from w(1) have "oid_of d = Some w"
      by (simp add: oid_of_Some)
    with Cons.prems(1) \<open>d \<in> set xs\<close> have "oid_of x \<noteq> Some w"
      by (force simp: ids_unique_def)
    then have "\<not> field_is ''_id'' (VOid w) x"
      by (simp add: field_is_def oid_of_Some)
    with w show ?thesis
      by (auto simp: find_one_def)
  qed
qed

lemma ids_unique_insert:
  assumes "ids_unique ds" and "find_one ''_id'' (VOid oid) ds = None"
  shows "ids_unique (ds @ [(''_id'', VOid oid) # data])"
proof -
  have "oid_of d \<noteq> Some oid" if "d \<in> set ds" for d
    using assms(2) that by (auto simp: find_one_None oid_of_Some)
  moreover have "oid_of ((''_id'', VOid oid) # data) = Some oid"
    by (simp add: oid_of_def)
  ultimately show ?thesis
    using assms(1) by (force simp: ids_unique_def)
qed

lemma invoice_inv_cong:
  "collection db' ''invoice'' = collection db ''invoice'' \<Longrightarrow> invoice_inv db' = invoice_inv db"
  by (simp add: invoice_inv_def)

lemma invoice_inv_initial: "initial db \<Longrightarrow> invoice_inv db"
  by (simp add: initial_def invoice_inv_def ids_unique_def)

lemma invoice_inv_add_car: "invoice_inv db \<Longrightarrow> invoice_inv (fst (add_car lib oid payload db))"
  by (auto simp: add_car_def Let_def create_document_def insert_one_def invoice_inv_def
        collection_set_collection split: sum.splits option.splits if_splits)

lemma invoice_inv_start:
  "invoice_inv db \<Longrightarrow> invoice_inv (fst (start_rental lib oid t_start t_upd payload db))"
  using start_rental_store [of lib oid t_start t_upd payload db]
  by (auto simp: invoice_inv_def collection_set_car_available collection_set_collection)

lemma invoice_inv_return:
  "invoice_inv db \<Longrightarrow>
   invoice_inv (fst (return_rental lib oid gen t_end t_upd_rental t_upd_car t_now rental_id
                       payload db))"
  using return_rental_store [of lib oid gen t_end t_upd_rental t_upd_car t_now rental_id payload db]
  by (auto simp: invoice_inv_def collection_set_car_available collection_set_rental_returned
        collection_set_collection ids_unique_insert)

lemma reachable_invoice_inv: "reachable lib db \<Longrightarrow> invoice_inv db"
  by (induction rule: reachable.induct)
     (simp_all add: invoice_inv_initial invoice_inv_add_car invoice_inv_start invoice_inv_return)

lemma str_oid_255: "str_oid 255 = ''0000000000000000000000ff''"
  by code_simp

lemma return_rental_adds_invoice:
  assumes "return_rental lib oid gen t_end t_upd_rental t_upd_car t_now rental_id payload db
             = (db', Inr out)"
  shows "collection db' ''invoice'' \<noteq> []"
  using assms by (elim return_rental_Inr) (simp add: collection_set_collection)

text \<open>
  Claim C9, as the specification states it, speaks of a get-by-id endpoint for each of
  the three list endpoints. \<^verbatim>\<open>src/main.py\<close> declares one for invoices only: a car that
  \<^verbatim>\<open>GET /api/cars\<close> lists cannot be fetched by id, since no route matches
  \<^verbatim>\<open>GET /api/cars/{id}\<close>, and the same holds for \<^verbatim>\<open>GET /api/rentals/{id}\<close>.
\<close>

theorem listed_car_not_fetchable_counterexample:
  "\<forall>lib :: 'f pylib.
     reachable lib [(''car'', [[(''_id'', VOid 255), (''plate_number'', VStr ''AB-1'')]])]
   \<and> list_cars lib [(''car'', [[(''_id'', VOid 255), (''plate_number'', VStr ''AB-1'')]])]
       = [[(''_id'', VStr ''0000000000000000000000ff''), (''plate_number'', VStr ''AB-1'')]]
   \<and> route GET [''api'', ''cars'', ''0000000000000000000000ff'']
       = Inl (HTTPException 404 ''Not Found'')
   \<and> route GET [''api'', ''rentals'', ''0000000000000000000000ff'']
       = Inl (HTTPException 404 ''Not Found'')"
proof
  fix lib :: "'f pylib"
  let ?db = "[(''car'', [[(''_id'', VOid 255), (''plate_number'', VStr ''AB-1'')]])] :: 'f database"
  have "reachable lib ?db"
    by (rule reach_initial) (simp add: initial_def collection_def)
  moreover have "list_cars lib ?db
       = [[(''_id'', VStr ''0000000000000000000000ff''), (''plate_number'', VStr ''AB-1'')]]"
    by (simp add: list_cars_def get_documents_def collection_def serialize_doc_def
          serialize_value_def str_oid_255)
  moreover have "route GET [''api'', ''cars'', ''0000000000000000000000ff'']
       = Inl (HTTPException 404 ''Not Found'')"
    by (simp add: route_def)
  moreover have "route GET [''api'', ''rentals'', ''0000000000000000000000ff'']
       = Inl (HTTPException 404 ''Not Found'')"
    by (simp add: route_def)
  ultimately show "reachable lib ?db
   \<and> list_cars lib ?db
       = [[(''_id'', VStr ''0000000000000000000000ff''), (''plate_number'', VStr ''AB-1'')]]
   \<and> route GET [''api'', ''cars'', ''0000000000000000000000ff'']
       = Inl (HTTPException 404 ''Not Found'')
   \<and> route GET [''api'', ''rentals'', ''0000000000000000000000ff'']
       = Inl (HTTPException 404 ''Not Found'')"
    by blast
qed

text \<open>
  Claim C9, amended: in every reachable store, each record that \<^verbatim>\<open>GET /api/invoices\<close>
  lists carries its identifier as the string \<^verbatim>\<open>_id\<close>, and \<^verbatim>\<open>GET /api/invoices/{id}\<close>
  with that string succeeds and returns the very same record.
\<close>

theorem listed_invoice_fetchable:
  assumes "reachable lib db" and "r \<in> set (list_invoices lib db)"
  shows "\<exists>s. map_of r ''_id'' = Some (VStr s) \<and> get_invoice lib s db = Inr r"
proof -
  from assms(2) obtain d where d: "d \<in> set (collection db ''invoice'')"
    and r: "r = serialize_doc lib d"
    by (auto simp: list_invoices_def get_documents_def)
  from reachable_invoice_inv [OF assms(1)] d obtain w where
    w: "map_of d ''_id'' = Some (VOid w)"
    and found: "find_one ''_id'' (VOid w) (collection db ''invoice'') = Some d"
    unfolding invoice_inv_def by (blast dest: ids_unique_find_one)
  have "map_of r ''_id'' = Some (VStr (str_oid w))"
    by (simp add: r map_of_serialize_doc w serialize_value_def)
  moreover have "get_invoice lib (str_oid w) db = Inr r"
    using found find_one_nonempty [OF found]
    by (simp add: get_invoice_def is_valid_str_oid ObjectId_str_oid find_by_id_oid_bytes r)
  ultimately show ?thesis by blast
qed

theorem listed_invoice_fetchable_witness:
  "\<forall>lib :: 'f pylib. \<exists>db r s.
     reachable lib db \<and> r \<in> set (list_invoices lib db)
   \<and> map_of r ''_id'' = Some (VStr s) \<and> get_invoice lib s db = Inr r"
proof
  fix lib :: "'f pylib"
  let ?p = "\<lparr>sr_car_id = ''0000000000000000000000ff'', sr_customer_name = ''Ann''\<rparr>"
  let ?start = "[(''car'', [[(''_id'', VOid 255), (''available'', VBool True)]])] :: 'f database"
  let ?rented = "fst (start_rental lib 1 5 6 ?p ?start)"
  let ?run = "return_rental lib 7 8 1704153600500123 1704153600500200 1704153600500300
                1704153600500400 ''000000000000000000000001'' \<lparr>rr_tax_rate = None\<rparr> ?rented"
  have a: "ObjectId ''0000000000000000000000ff'' = Inr [0, 0, 0, 0, 0, 0, 0, 0, 0, 0, 0, 255]"
    by (simp add: ObjectId_def hex_digit_def is_space_def)
  have a': "bson_oid [0, 0, 0, 0, 0, 0, 0, 0, 0, 0, 0, 255] = Some 255"
    by (simp add: bson_oid_def)
  have b: "ObjectId ''000000000000000000000001'' = Inr [0, 0, 0, 0, 0, 0, 0, 0, 0, 0, 0, 1]"
    by (simp add: ObjectId_def hex_digit_def is_space_def)
  have b': "bson_oid [0, 0, 0, 0, 0, 0, 0, 0, 0, 0, 0, 1] = Some 1"
    by (simp add: bson_oid_def)
  have va: "is_valid ''0000000000000000000000ff''"
    by (rule ObjectId_Inr_valid [OF a])
  have vb: "is_valid ''000000000000000000000001''"
    by (rule ObjectId_Inr_valid [OF b])
  have "reachable lib ?start"
    by (rule reach_initial) (simp add: initial_def collection_def)
  then have "reachable lib ?rented"
    by (rule reach_start)
  then have r: "reachable lib (fst ?run)"
    by (rule reach_return)
  have ev: "?rented = [(''car'', [[(''_id'', VOid 255), (''available'', VBool False),
                              (''updated_at'', VDate (utcnow 0))]]),
                   (''rental'', [(''_id'', VOid 1) # bson_doc (RentalSchema 5 (str_oid 255) ''Ann'')])]"
    by (simp add: start_rental_def a a' va find_by_id_def bson_oid_bytes find_one_def
          collection_def field_is_def doc_bool_def dict_get_default_def create_document_def
          insert_one_def set_car_available_def
          set_collection_def set_fields_def Let_def ObjectId_str_oid utcnow_def now_utc_def)
  have "\<exists>db' out. ?run = (db', Inr out)"
    unfolding ev
    by (simp add: return_rental_def b b' vb find_by_id_def bson_oid_bytes find_one_def
          collection_def field_is_def doc_bool_def dict_get_def dict_get_default_def
          set_rental_returned_def set_car_available_def
          set_collection_def set_fields_def compute_invoice_def utcnow_def now_utc_def
          datetime_sub_def Let_def create_document_def insert_one_def ObjectId_str_oid
          bson_doc_def RentalSchema_def int_to_float_def timedelta_of_micros_def
          billed_days_def)
  then obtain db' out where run: "?run = (db', Inr out)"
    by blast
  from return_rental_adds_invoice [OF run] obtain r' where
    "r' \<in> set (list_invoices lib (fst ?run))"
    by (cases "collection db' ''invoice''") (auto simp: run list_invoices_def get_documents_def)
  with listed_invoice_fetchable [OF r] r
  show "\<exists>db r s. reachable lib db \<and> r \<in> set (list_invoices lib db)
        \<and> map_of r ''_id'' = Some (VStr s) \<and> get_invoice lib s db = Inr r"
    by blast
qed

end
